theory Spec2Isabelle
  imports Complex_Main "HOL-Library.Code_Target_Numeral" "HOL-Library.Multiset"
begin

section \<open>Data model\<close>

text \<open>
  The rows of the relational store, as the services read and write them. The Prisma
  schema itself is not among the sources, so the columns are the ones the services name.
  Amounts are JavaScript numbers and Decimal columns in the source; here they are exact
  rationals, so no rounding takes place. Timestamps are milliseconds, as \<open>Date.now()\<close>.
  Row ids of payments, transactions and webhook events are generated by the store; here
  they come from a counter. Vendor ids arrive in requests and are strings.
\<close>

datatype PaymentStatus = PENDING | PROCESSING | COMPLETED | FAILED

datatype TransactionType = PAYMENT_IN | EXCHANGE_SGD_TO_USDC | EXCHANGE_USDC_TO_USD | PAYOUT

datatype TransactionStatus = TX_PENDING | TX_CONFIRMED | TX_FAILED

text \<open>Modelled from the spec: the declaration of the vendor status enum (Prisma schema) is
  missing; the spec lists ACTIVE, INACTIVE and further values.\<close>

datatype VendorStatus = ACTIVE | INACTIVE | OtherVendorStatus string

record BankAccount =
  b_circleAccountId :: "string option"

record Vendor =
  v_id :: string
  v_status :: VendorStatus
  v_bankAccount :: "BankAccount option"

record Payment =
  p_id :: nat
  p_idempotencyKey :: string
  p_vendorId :: string
  p_amountSgd :: rat
  p_amountUsd :: "rat option"
  p_exchangeRate :: "rat option"
  p_status :: PaymentStatus
  p_customerReference :: "string option"
  p_description :: "string option"
  p_expectedSettlementTime :: "nat option"
  p_actualSettlementTime :: "nat option"
  p_circlePaymentId :: "string option"
  p_createdAt :: nat

record Transaction =
  t_id :: nat
  t_paymentId :: nat
  t_type :: TransactionType
  t_status :: TransactionStatus
  t_amount :: rat
  t_currency :: string
  t_circleTransactionId :: "string option"
  t_fees :: "rat option"
  t_feeCurrency :: "string option"
  t_blockchainTxHash :: "string option"
  t_createdAt :: nat

record WebhookEvent =
  w_id :: nat
  w_circleEventId :: string
  w_eventType :: string
  w_payload :: string
  w_processed :: bool
  w_processedAt :: "nat option"
  w_relatedPaymentId :: "nat option"
  w_relatedTransactionId :: "nat option"

text \<open>The store: the four tables in insertion order, the id counter and the clock.\<close>

record store =
  vendors :: "Vendor list"
  payments :: "Payment list"
  transactions :: "Transaction list"
  webhookEvents :: "WebhookEvent list"
  nextId :: nat
  clock :: nat

section \<open>Errors and asynchronous code\<close>

text \<open>JavaScript exceptions by class, each with its message.\<close>

datatype error =
    Error string
  | TypeError string
  | RangeError string
  | PrismaClientKnownRequestError string

fun message :: "error \<Rightarrow> string" where
  "message (Error m) = m"
| "message (TypeError m) = m"
| "message (RangeError m) = m"
| "message (PrismaClientKnownRequestError m) = m"

text \<open>
  An async function is a function of the store that returns a value or throws, together
  with the store it leaves behind. \<open>await\<close> sequences two of them, \<open>catch\<close> is
  \<open>try { ... } catch (error) { ... }\<close>.
\<close>

type_synonym 'a io = "store \<Rightarrow> (error + 'a) \<times> store"

definition resolve :: "'a \<Rightarrow> 'a io" where
  "resolve x = (\<lambda>s. (Inr x, s))"

definition throw :: "error \<Rightarrow> 'a io" where
  "throw e = (\<lambda>s. (Inl e, s))"

definition await :: "'a io \<Rightarrow> ('a \<Rightarrow> 'b io) \<Rightarrow> 'b io" where
  "await m f = (\<lambda>s. case m s of (Inl e, s') \<Rightarrow> (Inl e, s') | (Inr x, s') \<Rightarrow> f x s')"

definition catch :: "'a io \<Rightarrow> (error \<Rightarrow> 'a io) \<Rightarrow> 'a io" where
  "catch m h = (\<lambda>s. case m s of (Inl e, s') \<Rightarrow> h e s' | (Inr x, s') \<Rightarrow> (Inr x, s'))"

definition query :: "(store \<Rightarrow> 'a) \<Rightarrow> 'a io" where
  "query f = (\<lambda>s. (Inr (f s), s))"

definition now :: "nat io" where
  "now = query clock"

definition setTimeout :: "nat \<Rightarrow> unit io" where
  "setTimeout ms = (\<lambda>s. (Inr (), s\<lparr>clock := clock s + ms\<rparr>))"

section \<open>The store's operations\<close>

text \<open>
  The Prisma client calls the services make. \<open>update\<close> on a row that does not exist
  throws; \<open>updateMany\<close> does not. \<open>create\<close> takes the next id and stamps the row with
  the clock.
\<close>

definition update_where :: "('a \<Rightarrow> bool) \<Rightarrow> ('a \<Rightarrow> 'a) \<Rightarrow> 'a list \<Rightarrow> 'a list" where
  "update_where P f rows = map (\<lambda>r. if P r then f r else r) rows"

definition recordNotFound :: error where
  "recordNotFound = PrismaClientKnownRequestError ''Record to update not found.''"

definition vendor_findFirst :: "(Vendor \<Rightarrow> bool) \<Rightarrow> Vendor option io" where
  "vendor_findFirst P = query (\<lambda>s. find P (vendors s))"

definition payment_findFirst :: "(Payment \<Rightarrow> bool) \<Rightarrow> Payment option io" where
  "payment_findFirst P = query (\<lambda>s. find P (payments s))"

definition payment_create ::
  "string \<Rightarrow> string \<Rightarrow> rat \<Rightarrow> rat \<Rightarrow> rat \<Rightarrow> PaymentStatus \<Rightarrow> string option \<Rightarrow> string option
    \<Rightarrow> nat \<Rightarrow> Payment io" where
  "payment_create key vendor sgd usd rate st cref descr expected = (\<lambda>s.
     let p = \<lparr> p_id = nextId s, p_idempotencyKey = key, p_vendorId = vendor,
               p_amountSgd = sgd, p_amountUsd = Some usd, p_exchangeRate = Some rate,
               p_status = st, p_customerReference = cref, p_description = descr,
               p_expectedSettlementTime = Some expected, p_actualSettlementTime = None,
               p_circlePaymentId = None, p_createdAt = clock s \<rparr>
     in (Inr p, s\<lparr>payments := payments s @ [p], nextId := Suc (nextId s)\<rparr>))"

definition payment_update :: "nat \<Rightarrow> (Payment \<Rightarrow> Payment) \<Rightarrow> unit io" where
  "payment_update pid f = (\<lambda>s.
     case find (\<lambda>p. p_id p = pid) (payments s) of
       None \<Rightarrow> (Inl recordNotFound, s)
     | Some _ \<Rightarrow> (Inr (), s\<lparr>payments := update_where (\<lambda>p. p_id p = pid) f (payments s)\<rparr>))"

definition transaction_findFirst :: "(Transaction \<Rightarrow> bool) \<Rightarrow> Transaction option io" where
  "transaction_findFirst P = query (\<lambda>s. find P (transactions s))"

definition transaction_create ::
  "nat \<Rightarrow> TransactionType \<Rightarrow> TransactionStatus \<Rightarrow> rat \<Rightarrow> string \<Rightarrow> string
    \<Rightarrow> rat option \<Rightarrow> string option \<Rightarrow> unit io" where
  "transaction_create pid ty st amt cur circleId fees feeCur = (\<lambda>s.
     let t = \<lparr> t_id = nextId s, t_paymentId = pid, t_type = ty, t_status = st,
               t_amount = amt, t_currency = cur, t_circleTransactionId = Some circleId,
               t_fees = fees, t_feeCurrency = feeCur, t_blockchainTxHash = None,
               t_createdAt = clock s \<rparr>
     in (Inr (), s\<lparr>transactions := transactions s @ [t], nextId := Suc (nextId s)\<rparr>))"

definition transaction_updateMany :: "(Transaction \<Rightarrow> bool) \<Rightarrow> (Transaction \<Rightarrow> Transaction) \<Rightarrow> unit io" where
  "transaction_updateMany P f = (\<lambda>s.
     (Inr (), s\<lparr>transactions := update_where P f (transactions s)\<rparr>))"

definition transaction_update :: "nat \<Rightarrow> (Transaction \<Rightarrow> Transaction) \<Rightarrow> unit io" where
  "transaction_update tid f = (\<lambda>s.
     case find (\<lambda>t. t_id t = tid) (transactions s) of
       None \<Rightarrow> (Inl recordNotFound, s)
     | Some _ \<Rightarrow> (Inr (), s\<lparr>transactions := update_where (\<lambda>t. t_id t = tid) f (transactions s)\<rparr>))"

section \<open>Rate provider\<close>

definition mockRates :: "(string \<times> rat) list" where
  "mockRates = [(''SGD-USDC'', 74 / 100), (''USDC-USD'', 1), (''SGD-USD'', 74 / 100)]"

text \<open>\<open>mockRates[key] || 1.0\<close>: a missing pair, and a rate of zero, give 1.\<close>

definition getExchangeRate :: "string \<Rightarrow> string \<Rightarrow> rat" where
  "getExchangeRate fromCurrency toCurrency =
     (case map_of mockRates (fromCurrency @ ''-'' @ toCurrency) of
        None \<Rightarrow> 1
      | Some r \<Rightarrow> if r = 0 then 1 else r)"

section \<open>Payment service: initiation\<close>

record CreatePaymentRequest =
  vendorId :: string
  amountSgd :: rat
  customerReference :: "string option"
  description :: "string option"

record CreatePaymentResponse =
  r_paymentId :: nat
  r_status :: PaymentStatus
  r_amountSgd :: rat
  r_estimatedAmountUsd :: "rat option"
  r_expectedSettlementTime :: "nat option"
  r_idempotencyKey :: string

definition paymentResponse :: "Payment \<Rightarrow> CreatePaymentResponse" where
  "paymentResponse p =
     \<lparr> r_paymentId = p_id p, r_status = p_status p, r_amountSgd = p_amountSgd p,
       r_estimatedAmountUsd = p_amountUsd p,
       r_expectedSettlementTime = p_expectedSettlementTime p,
       r_idempotencyKey = p_idempotencyKey p \<rparr>"

text \<open>
  \<open>initiatePayment\<close>. The first argument is the key \<open>generateIdempotencyKey()\<close> would
  return; it is used when no key is provided or the provided one is the empty string
  (\<open>providedIdempotencyKey || ...\<close>). Beside the response, the result names the payment
  whose processing flow the call started, if it started one: the flow is detached, and
  the call returns without waiting for it.
\<close>

definition initiatePayment ::
  "string \<Rightarrow> CreatePaymentRequest \<Rightarrow> string option \<Rightarrow> (CreatePaymentResponse \<times> nat option) io" where
  "initiatePayment uuid request providedIdempotencyKey =
     (let idempotencyKey =
            (case providedIdempotencyKey of
               None \<Rightarrow> uuid
             | Some k \<Rightarrow> if k = [] then uuid else k)
      in catch
        (await (payment_findFirst (\<lambda>p. p_idempotencyKey p = idempotencyKey)) (\<lambda>existingPayment.
           case existingPayment of
             Some existing \<Rightarrow> resolve (paymentResponse existing, None)
           | None \<Rightarrow>
               await (vendor_findFirst (\<lambda>v. v_id v = vendorId request \<and> v_status v = ACTIVE)) (\<lambda>vendor.
                 case vendor of
                   None \<Rightarrow> throw (Error ''Vendor not found or inactive'')
                 | Some v \<Rightarrow>
                     (case v_bankAccount v of
                        None \<Rightarrow> throw (Error ''Vendor bank account not configured'')
                      | Some _ \<Rightarrow>
                          (let sgdToUsdcRate = getExchangeRate ''SGD'' ''USDC'';
                               usdcToUsdRate = getExchangeRate ''USDC'' ''USD'';
                               combinedRate = sgdToUsdcRate * usdcToUsdRate;
                               estimatedAmountUsd = amountSgd request * combinedRate
                           in await now (\<lambda>t.
                                await (payment_create idempotencyKey (vendorId request)
                                         (amountSgd request) estimatedAmountUsd combinedRate PENDING
                                         (customerReference request) (description request)
                                         (t + 30 * 60 * 1000)) (\<lambda>payment.
                                  resolve (paymentResponse payment, Some (p_id payment)))))))))
        (\<lambda>error. throw (Error (''Payment initiation failed: '' @ message error))))"

section \<open>Payment service: the processing flow\<close>

text \<open>Decimal digits of a number, as a template literal prints \<open>Date.now()\<close>.\<close>

function string_of_nat :: "nat \<Rightarrow> string" where
  "string_of_nat n =
     (if n < 10 then [char_of (48 + n)]
      else string_of_nat (n div 10) @ [char_of (48 + n mod 10)])"
  by pat_completeness auto
termination
  by (relation "measure id") auto

declare string_of_nat.simps [simp del]

text \<open>
  What the flow takes from its environment: the two \<open>Math.random()\<close> strings, the
  time that passes while the flow waits for each of its five steps (any number of
  milliseconds, zero included), and the calls of the store that are rejected. The flow
  awaits sixteen calls of the store, numbered here in the order of the source text:
  1 the update to PROCESSING; 2, 3, 4 the read, the update and the create of
  \<open>createCirclePaymentIntent\<close>; 5 the \<open>updateMany\<close> of \<open>simulatePaymentConfirmation\<close>;
  6, 7 the read and the create of \<open>exchangeSgdToUsdc\<close>; 8, 9, 10 the read, the create
  and the update of \<open>exchangeUsdcToUsd\<close>; 11, 12, 13 the read, the create and the update
  of \<open>payoutToVendor\<close>; 14 the update to COMPLETED; 15 the update to FAILED in the
  \<open>catch\<close> block of \<open>processPaymentFlow\<close>; 16 the update to FAILED in the \<open>.catch\<close> of
  the detached call. \<open>rejects env n\<close> is the error with which call \<open>n\<close> is rejected
  (the database is unreachable, say), \<open>None\<close> when the store carries it out.
\<close>

record flow_env =
  rand36 :: string
  rand16 :: string
  latency :: "nat \<Rightarrow> nat"
  rejects :: "nat \<Rightarrow> error option"

definition elapse :: "nat \<Rightarrow> unit io" where
  "elapse ms = (\<lambda>s. (Inr (), s\<lparr>clock := clock s + ms\<rparr>))"

text \<open>A call of the store that the environment may reject: rejected, it throws and does nothing.\<close>

definition attempt :: "error option \<Rightarrow> 'a io \<Rightarrow> 'a io" where
  "attempt rejection call = (case rejection of None \<Rightarrow> call | Some error \<Rightarrow> throw error)"

definition updatePaymentStatus :: "nat \<Rightarrow> PaymentStatus \<Rightarrow> unit io" where
  "updatePaymentStatus paymentId status = payment_update paymentId (\<lambda>p. p\<lparr>p_status := status\<rparr>)"

definition createCirclePaymentIntent :: "flow_env \<Rightarrow> nat \<Rightarrow> string io" where
  "createCirclePaymentIntent env paymentId =
     await (attempt (rejects env 2) (payment_findFirst (\<lambda>p. p_id p = paymentId))) (\<lambda>found.
       case found of
         None \<Rightarrow> throw (Error ''Payment not found'')
       | Some payment \<Rightarrow>
           catch
             (await now (\<lambda>t.
                let intentId = ''pi_'' @ string_of_nat t @ ''_'' @ rand36 env
                in await (attempt (rejects env 3)
                            (payment_update paymentId (\<lambda>p. p\<lparr>p_circlePaymentId := Some intentId\<rparr>))) (\<lambda>_.
                   await (attempt (rejects env 4)
                            (transaction_create paymentId PAYMENT_IN TX_PENDING (p_amountSgd payment)
                               ''SGD'' intentId None None)) (\<lambda>_.
                   resolve intentId))))
             (\<lambda>error. throw (Error (''Failed to create Circle payment intent: '' @ message error))))"

definition simulatePaymentConfirmation :: "flow_env \<Rightarrow> nat \<Rightarrow> string \<Rightarrow> unit io" where
  "simulatePaymentConfirmation env paymentId circlePaymentId =
     await (setTimeout 2000) (\<lambda>_.
       attempt (rejects env 5)
         (transaction_updateMany
            (\<lambda>t. t_paymentId t = paymentId \<and> t_type t = PAYMENT_IN
                 \<and> t_circleTransactionId t = Some circlePaymentId)
            (\<lambda>t. t\<lparr>t_status := TX_CONFIRMED, t_blockchainTxHash := Some (''0x'' @ rand16 env)\<rparr>)))"

definition exchangeSgdToUsdc :: "flow_env \<Rightarrow> nat \<Rightarrow> unit io" where
  "exchangeSgdToUsdc env paymentId =
     await (attempt (rejects env 6) (payment_findFirst (\<lambda>p. p_id p = paymentId))) (\<lambda>found.
       case found of
         None \<Rightarrow> throw (Error ''Payment not found'')
       | Some payment \<Rightarrow>
           (let rate = getExchangeRate ''SGD'' ''USDC'';
                usdcAmount = p_amountSgd payment * rate
            in await now (\<lambda>t.
                 attempt (rejects env 7)
                   (transaction_create paymentId EXCHANGE_SGD_TO_USDC TX_CONFIRMED usdcAmount ''USDC''
                      (''exchange-sgd-usdc-'' @ string_of_nat t)
                      (Some (usdcAmount * (1 / 1000))) (Some ''USDC'')))))"

text \<open>The read of the payment brings its transactions of the wanted type with it (\<open>include\<close>).\<close>

definition exchangeUsdcToUsd :: "flow_env \<Rightarrow> nat \<Rightarrow> unit io" where
  "exchangeUsdcToUsd env paymentId =
     await (attempt (rejects env 8) (payment_findFirst (\<lambda>p. p_id p = paymentId))) (\<lambda>found.
       case found of
         None \<Rightarrow> throw (Error ''Payment not found'')
       | Some payment \<Rightarrow>
           await (query (\<lambda>s. filter (\<lambda>t. t_paymentId t = paymentId \<and> t_type t = EXCHANGE_SGD_TO_USDC)
                                 (transactions s))) (\<lambda>included.
             case included of
               [] \<Rightarrow> throw (Error ''USDC transaction not found'')
             | usdcTransaction # _ \<Rightarrow>
                 (let rate = getExchangeRate ''USDC'' ''USD'';
                      usdAmount = t_amount usdcTransaction * rate
                  in await now (\<lambda>t.
                     await (attempt (rejects env 9)
                              (transaction_create paymentId EXCHANGE_USDC_TO_USD TX_CONFIRMED usdAmount ''USD''
                                 (''exchange-usdc-usd-'' @ string_of_nat t)
                                 (Some (usdAmount * (1 / 1000))) (Some ''USD''))) (\<lambda>_.
                     attempt (rejects env 10)
                       (payment_update paymentId (\<lambda>p. p\<lparr>p_amountUsd := Some usdAmount\<rparr>)))))))"

text \<open>
  \<open>payoutToVendor\<close>. The vendor is a required relation of the payment; were its row
  missing, reading \<open>payment.vendor.bankAccount\<close> would be a TypeError.
\<close>

definition payoutToVendor :: "flow_env \<Rightarrow> nat \<Rightarrow> unit io" where
  "payoutToVendor env paymentId =
     await (attempt (rejects env 11) (payment_findFirst (\<lambda>p. p_id p = paymentId))) (\<lambda>found.
       case found of
         None \<Rightarrow> throw (Error ''Payment not found'')
       | Some payment \<Rightarrow>
           await (vendor_findFirst (\<lambda>v. v_id v = p_vendorId payment)) (\<lambda>vendor.
           await (query (\<lambda>s. filter (\<lambda>t. t_paymentId t = paymentId \<and> t_type t = EXCHANGE_USDC_TO_USD)
                                 (transactions s))) (\<lambda>included.
             case vendor of
               None \<Rightarrow> throw (TypeError ''Cannot read properties of null (reading bankAccount)'')
             | Some v \<Rightarrow>
                 (case v_bankAccount v of
                    None \<Rightarrow> throw (Error ''Vendor bank account not found'')
                  | Some _ \<Rightarrow>
                      (case included of
                         [] \<Rightarrow> throw (Error ''USD transaction not found'')
                       | usdTransaction # _ \<Rightarrow>
                           catch
                             (await now (\<lambda>t.
                                let simulatedPayoutId = ''payout-'' @ string_of_nat t
                                in await (attempt (rejects env 12)
                                            (transaction_create paymentId PAYOUT TX_CONFIRMED
                                               (t_amount usdTransaction) ''USD'' simulatedPayoutId
                                               (Some (t_amount usdTransaction * (2 / 1000))) (Some ''USD''))) (\<lambda>_.
                                   await now (\<lambda>t'.
                                   attempt (rejects env 13)
                                     (payment_update paymentId (\<lambda>p. p\<lparr>p_actualSettlementTime := Some t'\<rparr>))))))
                             (\<lambda>error. throw (Error (''Payout failed: '' @ message error))))))))"

text \<open>The body of the \<open>try\<close> block of \<open>processPaymentFlow\<close>, step by step.\<close>

definition paymentFlowSteps :: "flow_env \<Rightarrow> nat \<Rightarrow> unit io" where
  "paymentFlowSteps env paymentId =
     await (attempt (rejects env 1) (updatePaymentStatus paymentId PROCESSING)) (\<lambda>_.
     await (elapse (latency env 1)) (\<lambda>_.
     await (createCirclePaymentIntent env paymentId) (\<lambda>sgdPaymentIntent.
     await (elapse (latency env 2)) (\<lambda>_.
     await (simulatePaymentConfirmation env paymentId sgdPaymentIntent) (\<lambda>_.
     await (elapse (latency env 3)) (\<lambda>_.
     await (exchangeSgdToUsdc env paymentId) (\<lambda>_.
     await (elapse (latency env 4)) (\<lambda>_.
     await (exchangeUsdcToUsd env paymentId) (\<lambda>_.
     await (elapse (latency env 5)) (\<lambda>_.
     await (payoutToVendor env paymentId) (\<lambda>_.
     attempt (rejects env 14) (updatePaymentStatus paymentId COMPLETED))))))))))))"

definition processPaymentFlow :: "flow_env \<Rightarrow> nat \<Rightarrow> unit io" where
  "processPaymentFlow env paymentId =
     catch (paymentFlowSteps env paymentId)
       (\<lambda>error. await (attempt (rejects env 15) (updatePaymentStatus paymentId FAILED)) (\<lambda>_. throw error))"

text \<open>
  The detached call in \<open>initiatePayment\<close>:
  \<open>this.processPaymentFlow(payment.id).catch(error => { ...; this.updatePaymentStatus(payment.id, FAILED) })\<close>.
  Nothing is returned or thrown to anyone; only the store changes. The update in the
  handler is not awaited: when it is rejected in its turn, nothing more happens to the
  store.
\<close>

definition runDetachedFlow :: "flow_env \<Rightarrow> nat \<Rightarrow> store \<Rightarrow> store" where
  "runDetachedFlow env paymentId s =
     (case processPaymentFlow env paymentId s of
        (Inr _, s') \<Rightarrow> s'
      | (Inl error, s') \<Rightarrow> snd (attempt (rejects env 16) (updatePaymentStatus paymentId FAILED) s'))"

text \<open>A call of \<open>initiatePayment\<close> together with the flow it started, run to its end.\<close>

definition initiatePaymentAndFlow ::
  "flow_env \<Rightarrow> string \<Rightarrow> CreatePaymentRequest \<Rightarrow> string option \<Rightarrow> CreatePaymentResponse io" where
  "initiatePaymentAndFlow env uuid request providedIdempotencyKey = (\<lambda>s.
     case initiatePayment uuid request providedIdempotencyKey s of
       (Inl error, s') \<Rightarrow> (Inl error, s')
     | (Inr (response, None), s') \<Rightarrow> (Inr response, s')
     | (Inr (response, Some paymentId), s') \<Rightarrow> (Inr response, runDetachedFlow env paymentId s'))"

text \<open>
  The number of \<open>transaction.create\<close> calls the flow makes before its call number
  \<open>call\<close>: the creates are the calls 4, 7, 9 and 12.
\<close>

definition createsBefore :: "nat \<Rightarrow> nat" where
  "createsBefore call = length (filter (\<lambda>c. c < call) [4, 7, 9, 12])"

section \<open>Payment service: status\<close>

record TransactionSummary =
  ts_id :: nat
  ts_type :: TransactionType
  ts_status :: TransactionStatus
  ts_amount :: rat
  ts_currency :: string
  ts_fees :: "rat option"
  ts_blockchainTxHash :: "string option"
  ts_createdAt :: nat

record PaymentStatusResponse =
  ps_paymentId :: nat
  ps_status :: PaymentStatus
  ps_amountSgd :: rat
  ps_amountUsd :: "rat option"
  ps_exchangeRate :: "rat option"
  ps_vendorId :: string
  ps_transactions :: "TransactionSummary list"
  ps_createdAt :: nat
  ps_expectedSettlementTime :: "nat option"
  ps_actualSettlementTime :: "nat option"

definition transactionSummary :: "Transaction \<Rightarrow> TransactionSummary" where
  "transactionSummary tx =
     \<lparr> ts_id = t_id tx, ts_type = t_type tx, ts_status = t_status tx, ts_amount = t_amount tx,
       ts_currency = t_currency tx, ts_fees = t_fees tx,
       ts_blockchainTxHash = t_blockchainTxHash tx, ts_createdAt = t_createdAt tx \<rparr>"

text \<open>
  \<open>orderBy: { createdAt: 'asc' }\<close>. The store returns the payment's transactions by
  ascending creation time. The source fixes no order among rows created at the same
  time: that is left to the store. \<open>scan\<close> stands for the order in which the store
  comes across the rows before it sorts them; it is the store's own business and may be
  any rearrangement of them. The sort keeps rows of equal creation time in scan order.
\<close>

definition transactions_orderBy_createdAt ::
  "(Transaction list \<Rightarrow> Transaction list) \<Rightarrow> nat \<Rightarrow> store \<Rightarrow> Transaction list" where
  "transactions_orderBy_createdAt scan paymentId s =
     sort_key t_createdAt (scan (filter (\<lambda>t. t_paymentId t = paymentId) (transactions s)))"

definition getPaymentStatus ::
  "(Transaction list \<Rightarrow> Transaction list) \<Rightarrow> nat \<Rightarrow> PaymentStatusResponse io" where
  "getPaymentStatus scan paymentId =
     await (payment_findFirst (\<lambda>p. p_id p = paymentId)) (\<lambda>found.
       case found of
         None \<Rightarrow> throw (Error ''Payment not found'')
       | Some payment \<Rightarrow>
           await (vendor_findFirst (\<lambda>v. v_id v = p_vendorId payment)) (\<lambda>vendor.
           await (query (transactions_orderBy_createdAt scan paymentId)) (\<lambda>txs.
             case vendor of
               None \<Rightarrow> throw (TypeError ''Cannot read properties of null (reading id)'')
             | Some v \<Rightarrow>
                 resolve
                   \<lparr> ps_paymentId = p_id payment, ps_status = p_status payment,
                     ps_amountSgd = p_amountSgd payment, ps_amountUsd = p_amountUsd payment,
                     ps_exchangeRate = p_exchangeRate payment, ps_vendorId = v_id v,
                     ps_transactions = map transactionSummary txs,
                     ps_createdAt = p_createdAt payment,
                     ps_expectedSettlementTime = p_expectedSettlementTime payment,
                     ps_actualSettlementTime = p_actualSettlementTime payment \<rparr>)))"

section \<open>Validation and the payments route\<close>

text \<open>
  A value of a JSON request body as the handler sees it. \<open>Undefined\<close> stands for a
  missing field; a number is finite or one of the three others.
\<close>

datatype js_number = Finite rat | PosInfinity | NegInfinity | NaN

datatype js_value = Undefined | Number js_number | String string

fun truthy :: "js_value \<Rightarrow> bool" where
  "truthy Undefined = False"
| "truthy (Number (Finite a)) = (a \<noteq> 0)"
| "truthy (Number NaN) = False"
| "truthy (Number PosInfinity) = True"
| "truthy (Number NegInfinity) = True"
| "truthy (String str) = (str \<noteq> [])"

text \<open>
  \<open>amount > 0 && Number.isFinite(amount) && amount <= 1000000\<close>. \<open>Number.isFinite\<close>
  is false of every value that is not a finite number, strings included.
\<close>

fun validateAmount :: "js_value \<Rightarrow> bool" where
  "validateAmount (Number (Finite amount)) = (amount > 0 \<and> amount \<le> 1000000)"
| "validateAmount _ = False"

text \<open>
  \<open>/^[0-9a-f]{8}-[0-9a-f]{4}-4[0-9a-f]{3}-[89ab][0-9a-f]{3}-[0-9a-f]{12}$/i\<close>, one
  character class for each of the 36 positions; the \<open>i\<close> flag admits capitals.
\<close>

datatype char_class = HexDigit | Hyphen | Four | Variant

definition uuidRegex :: "char_class list" where
  "uuidRegex =
     replicate 8 HexDigit @ [Hyphen] @ replicate 4 HexDigit @ [Hyphen] @
     [Four] @ replicate 3 HexDigit @ [Hyphen] @
     [Variant] @ replicate 3 HexDigit @ [Hyphen] @ replicate 12 HexDigit"

fun in_class :: "char_class \<Rightarrow> char \<Rightarrow> bool" where
  "in_class HexDigit c = (c \<in> set ''0123456789abcdefABCDEF'')"
| "in_class Hyphen c = (c = CHR ''-'')"
| "in_class Four c = (c = CHR ''4'')"
| "in_class Variant c = (c \<in> set ''89abAB'')"

definition validateIdempotencyKey :: "string \<Rightarrow> bool" where
  "validateIdempotencyKey key = list_all2 in_class uuidRegex key"

text \<open>
  The spec's words, ``UUID-shaped'': five groups of 8, 4, 4, 4 and 12 hexadecimal digits
  separated by hyphens, of any version and variant.
\<close>

definition spec_uuidShape :: "char_class list" where
  "spec_uuidShape =
     replicate 8 HexDigit @ [Hyphen] @ replicate 4 HexDigit @ [Hyphen] @
     replicate 4 HexDigit @ [Hyphen] @ replicate 4 HexDigit @ [Hyphen] @ replicate 12 HexDigit"

definition spec_uuidShaped :: "string \<Rightarrow> bool" where
  "spec_uuidShaped key = list_all2 in_class spec_uuidShape key"

record PaymentsPostRequest =
  body_vendorId :: "string option"
  body_amountSgd :: js_value
  body_customerReference :: "string option"
  body_description :: "string option"
  header_idempotencyKey :: "string option"

datatype payments_reply = PaymentCreated CreatePaymentResponse | ErrorMessage string

text \<open>
  \<open>router.post('/')\<close> of the payments route: the status code, the body, the flow the call
  started (if any) and the store. \<open>parseFloat\<close> of a finite number is that number; the
  other values never reach it.
\<close>

definition payments_post ::
  "string \<Rightarrow> PaymentsPostRequest \<Rightarrow> store \<Rightarrow> (nat \<times> payments_reply) \<times> nat option \<times> store" where
  "payments_post uuid req s =
     (case body_vendorId req of
        None \<Rightarrow> ((400, ErrorMessage ''vendorId is required''), None, s)
      | Some vendor \<Rightarrow>
          if vendor = [] then ((400, ErrorMessage ''vendorId is required''), None, s)
          else if \<not> truthy (body_amountSgd req) \<or> \<not> validateAmount (body_amountSgd req)
          then ((400, ErrorMessage ''Valid amountSgd is required (must be > 0 and <= 1,000,000)''), None, s)
          else if (case header_idempotencyKey req of
                     None \<Rightarrow> False
                   | Some providedIdempotencyKey \<Rightarrow>
                       providedIdempotencyKey \<noteq> [] \<and> \<not> validateIdempotencyKey providedIdempotencyKey)
          then ((400, ErrorMessage ''Invalid idempotency key format (must be UUID)''), None, s)
          else
            (case body_amountSgd req of
               Number (Finite amount) \<Rightarrow>
                 (case initiatePayment uuid
                         \<lparr> vendorId = vendor, amountSgd = amount,
                           customerReference = body_customerReference req,
                           description = body_description req \<rparr>
                         (header_idempotencyKey req) s of
                    (Inr (payment, started), s') \<Rightarrow> ((201, PaymentCreated payment), started, s')
                  | (Inl error, s') \<Rightarrow> ((400, ErrorMessage (message error)), None, s'))
             | _ \<Rightarrow> ((400, ErrorMessage ''Payment initiation failed''), None, s)))"

section \<open>Webhook route\<close>

definition webhookEvent_findFirst :: "(WebhookEvent \<Rightarrow> bool) \<Rightarrow> WebhookEvent option io" where
  "webhookEvent_findFirst P = query (\<lambda>s. find P (webhookEvents s))"

definition webhookEvent_update :: "nat \<Rightarrow> (WebhookEvent \<Rightarrow> WebhookEvent) \<Rightarrow> unit io" where
  "webhookEvent_update wid f = (\<lambda>s.
     case find (\<lambda>w. w_id w = wid) (webhookEvents s) of
       None \<Rightarrow> (Inl recordNotFound, s)
     | Some _ \<Rightarrow> (Inr (), s\<lparr>webhookEvents := update_where (\<lambda>w. w_id w = wid) f (webhookEvents s)\<rparr>))"

text \<open>\<open>upsert\<close> by the event id: an existing row gets the new payload, else a row is created.\<close>

definition webhookEvent_upsert :: "string \<Rightarrow> string \<Rightarrow> string \<Rightarrow> WebhookEvent io" where
  "webhookEvent_upsert eventId eventType payload = (\<lambda>s.
     case find (\<lambda>w. w_circleEventId w = eventId) (webhookEvents s) of
       Some existing \<Rightarrow>
         (Inr (existing\<lparr>w_payload := payload\<rparr>),
          s\<lparr>webhookEvents :=
               update_where (\<lambda>w. w_circleEventId w = eventId) (\<lambda>w. w\<lparr>w_payload := payload\<rparr>)
                 (webhookEvents s)\<rparr>)
     | None \<Rightarrow>
         (let w = \<lparr> w_id = nextId s, w_circleEventId = eventId, w_eventType = eventType,
                    w_payload = payload, w_processed = False, w_processedAt = None,
                    w_relatedPaymentId = None, w_relatedTransactionId = None \<rparr>
          in (Inr w, s\<lparr>webhookEvents := webhookEvents s @ [w], nextId := Suc (nextId s)\<rparr>)))"

text \<open>
  \<open>Buffer.from(str, 'hex')\<close> of Node: pairs of hexadecimal digits are decoded to bytes
  up to the first pair that is not one; a last single character is dropped.
\<close>

definition hexValue :: "char \<Rightarrow> nat option" where
  "hexValue c = map_of (zip ''0123456789abcdef'' [0 ..< 16] @ zip ''ABCDEF'' [10 ..< 16]) c"

fun bufferFromHex :: "string \<Rightarrow> nat list" where
  "bufferFromHex (a # b # rest) =
     (case (hexValue a, hexValue b) of
        (Some hi, Some lo) \<Rightarrow> (16 * hi + lo) # bufferFromHex rest
      | _ \<Rightarrow> [])"
| "bufferFromHex _ = []"

text \<open>\<open>crypto.timingSafeEqual\<close> of Node throws when the two buffers differ in length.\<close>

definition timingSafeEqual :: "nat list \<Rightarrow> nat list \<Rightarrow> error + bool" where
  "timingSafeEqual a b =
     (if length a \<noteq> length b then Inl (RangeError ''Input buffers must have the same byte length'')
      else Inr (a = b))"

text \<open>
  \<open>verifyWebhookSignature\<close>. The first argument stands for Node's
  \<open>crypto.createHmac('sha256', secret).update(payload).digest('hex')\<close>, a function of
  the secret and the payload. The signature is the request's \<open>x-signature\<close> header,
  \<open>None\<close> when the header is missing: \<open>Buffer.from(undefined, 'hex')\<close> is a TypeError.
\<close>

definition verifyWebhookSignature ::
  "(string \<Rightarrow> string \<Rightarrow> string) \<Rightarrow> string \<Rightarrow> string option \<Rightarrow> string \<Rightarrow> error + bool" where
  "verifyWebhookSignature hmacSha256Hex payload signature secret =
     (if secret = [] then Inr True
      else
        (let expectedSignature = hmacSha256Hex secret payload
         in case signature of
              None \<Rightarrow> Inl (TypeError ''The first argument must be of type string'')
            | Some sig \<Rightarrow> timingSafeEqual (bufferFromHex sig) (bufferFromHex expectedSignature)))"

text \<open>
  A request to the webhook route. \<open>wh_payload\<close> is \<open>JSON.stringify(req.body)\<close>, the
  string the handler signs; the fields of the body the handlers read are \<open>Type\<close>,
  \<open>Id\<close>, \<open>Data.id\<close> and \<open>Data.transactionHash\<close>.
\<close>

record EventData =
  ed_id :: string
  ed_transactionHash :: "string option"

record CircleWebhookRequest =
  header_signature :: "string option"
  wh_payload :: string
  wh_Type :: string
  wh_Id :: string
  wh_Data :: EventData

text \<open>A field absent from the data of an update is left as it is.\<close>

definition setHash :: "string option \<Rightarrow> Transaction \<Rightarrow> Transaction" where
  "setHash h t = (case h of None \<Rightarrow> t | Some x \<Rightarrow> t\<lparr>t_blockchainTxHash := Some x\<rparr>)"

definition handlePaymentIntentSucceeded :: "EventData \<Rightarrow> nat \<Rightarrow> unit io" where
  "handlePaymentIntentSucceeded eventData webhookEventId =
     (let circlePaymentId = ed_id eventData
      in await (payment_findFirst (\<lambda>p. p_circlePaymentId p = Some circlePaymentId)) (\<lambda>found.
           case found of
             None \<Rightarrow> resolve ()
           | Some payment \<Rightarrow>
               await (transaction_updateMany
                        (\<lambda>t. t_paymentId t = p_id payment \<and> t_circleTransactionId t = Some circlePaymentId)
                        (\<lambda>t. setHash (ed_transactionHash eventData) (t\<lparr>t_status := TX_CONFIRMED\<rparr>))) (\<lambda>_.
               webhookEvent_update webhookEventId (\<lambda>w. w\<lparr>w_relatedPaymentId := Some (p_id payment)\<rparr>))))"

definition handlePaymentIntentFailed :: "EventData \<Rightarrow> nat \<Rightarrow> unit io" where
  "handlePaymentIntentFailed eventData webhookEventId =
     (let circlePaymentId = ed_id eventData
      in await (payment_findFirst (\<lambda>p. p_circlePaymentId p = Some circlePaymentId)) (\<lambda>found.
           case found of
             None \<Rightarrow> resolve ()
           | Some payment \<Rightarrow>
               await (transaction_updateMany
                        (\<lambda>t. t_paymentId t = p_id payment \<and> t_circleTransactionId t = Some circlePaymentId)
                        (\<lambda>t. t\<lparr>t_status := TX_FAILED\<rparr>)) (\<lambda>_.
               await (payment_update (p_id payment) (\<lambda>p. p\<lparr>p_status := FAILED\<rparr>)) (\<lambda>_.
               webhookEvent_update webhookEventId (\<lambda>w. w\<lparr>w_relatedPaymentId := Some (p_id payment)\<rparr>)))))"

definition handleTransferCompleted :: "EventData \<Rightarrow> nat \<Rightarrow> unit io" where
  "handleTransferCompleted eventData webhookEventId =
     (let circleTransferId = ed_id eventData
      in await (transaction_findFirst (\<lambda>t. t_circleTransactionId t = Some circleTransferId)) (\<lambda>found.
           case found of
             None \<Rightarrow> resolve ()
           | Some transaction \<Rightarrow>
               await (transaction_update (t_id transaction)
                        (\<lambda>t. setHash (ed_transactionHash eventData) (t\<lparr>t_status := TX_CONFIRMED\<rparr>))) (\<lambda>_.
               webhookEvent_update webhookEventId
                 (\<lambda>w. w\<lparr>w_relatedTransactionId := Some (t_id transaction)\<rparr>))))"

definition handleTransferFailed :: "EventData \<Rightarrow> nat \<Rightarrow> unit io" where
  "handleTransferFailed eventData webhookEventId =
     (let circleTransferId = ed_id eventData
      in await (transaction_findFirst (\<lambda>t. t_circleTransactionId t = Some circleTransferId)) (\<lambda>found.
           case found of
             None \<Rightarrow> resolve ()
           | Some transaction \<Rightarrow>
               await (transaction_update (t_id transaction) (\<lambda>t. t\<lparr>t_status := TX_FAILED\<rparr>)) (\<lambda>_.
               await (if t_type transaction = PAYOUT
                      then payment_update (t_paymentId transaction) (\<lambda>p. p\<lparr>p_status := FAILED\<rparr>)
                      else resolve ()) (\<lambda>_.
               webhookEvent_update webhookEventId
                 (\<lambda>w. w\<lparr>w_relatedTransactionId := Some (t_id transaction)\<rparr>)))))"

definition handlePayoutCompleted :: "EventData \<Rightarrow> nat \<Rightarrow> unit io" where
  "handlePayoutCompleted eventData webhookEventId =
     (let circlePayoutId = ed_id eventData
      in await (transaction_findFirst (\<lambda>t. t_circleTransactionId t = Some circlePayoutId)) (\<lambda>found.
           case found of
             None \<Rightarrow> resolve ()
           | Some transaction \<Rightarrow>
               await (transaction_update (t_id transaction) (\<lambda>t. t\<lparr>t_status := TX_CONFIRMED\<rparr>)) (\<lambda>_.
               await now (\<lambda>date.
               await (payment_update (t_paymentId transaction)
                        (\<lambda>p. p\<lparr>p_status := COMPLETED, p_actualSettlementTime := Some date\<rparr>)) (\<lambda>_.
               webhookEvent_update webhookEventId
                 (\<lambda>w. w\<lparr>w_relatedTransactionId := Some (t_id transaction)\<rparr>))))))"

definition handlePayoutFailed :: "EventData \<Rightarrow> nat \<Rightarrow> unit io" where
  "handlePayoutFailed eventData webhookEventId =
     (let circlePayoutId = ed_id eventData
      in await (transaction_findFirst (\<lambda>t. t_circleTransactionId t = Some circlePayoutId)) (\<lambda>found.
           case found of
             None \<Rightarrow> resolve ()
           | Some transaction \<Rightarrow>
               await (transaction_update (t_id transaction) (\<lambda>t. t\<lparr>t_status := TX_FAILED\<rparr>)) (\<lambda>_.
               await (payment_update (t_paymentId transaction) (\<lambda>p. p\<lparr>p_status := FAILED\<rparr>)) (\<lambda>_.
               webhookEvent_update webhookEventId
                 (\<lambda>w. w\<lparr>w_relatedTransactionId := Some (t_id transaction)\<rparr>)))))"

definition processWebhookEvent :: "string \<Rightarrow> EventData \<Rightarrow> nat \<Rightarrow> unit io" where
  "processWebhookEvent eventType eventData webhookEventId =
     catch
       (if eventType = ''payment_intent.succeeded'' then handlePaymentIntentSucceeded eventData webhookEventId
        else if eventType = ''payment_intent.failed'' then handlePaymentIntentFailed eventData webhookEventId
        else if eventType = ''transfer.completed'' then handleTransferCompleted eventData webhookEventId
        else if eventType = ''transfer.failed'' then handleTransferFailed eventData webhookEventId
        else if eventType = ''payout.completed'' then handlePayoutCompleted eventData webhookEventId
        else if eventType = ''payout.failed'' then handlePayoutFailed eventData webhookEventId
        else resolve ())
       (\<lambda>error. throw error)"

datatype webhook_reply = StatusReply string | ErrorReply string

text \<open>
  \<open>router.post('/circle')\<close>. The secret is \<open>circleConfig.webhookSecret\<close>, \<open>None\<close> when
  the environment variable is not set; the check runs when it is a non-empty string.
  \<open>signatureRejected\<close> is the condition of the handler's first \<open>if\<close>:
  \<open>circleConfig.webhookSecret && !verifyWebhookSignature(payload, signature, secret)\<close>.
  Whatever is thrown inside the handler's \<open>try\<close> is answered 500.
\<close>

definition signatureRejected ::
  "(string \<Rightarrow> string \<Rightarrow> string) \<Rightarrow> string option \<Rightarrow> CircleWebhookRequest \<Rightarrow> bool io" where
  "signatureRejected hmacSha256Hex webhookSecret req =
     (case webhookSecret of
        None \<Rightarrow> resolve False
      | Some secret \<Rightarrow>
          if secret = [] then resolve False
          else (case verifyWebhookSignature hmacSha256Hex (wh_payload req) (header_signature req) secret of
                  Inl error \<Rightarrow> throw error
                | Inr verified \<Rightarrow> resolve (\<not> verified)))"

definition webhooks_post_circle ::
  "(string \<Rightarrow> string \<Rightarrow> string) \<Rightarrow> string option \<Rightarrow> CircleWebhookRequest \<Rightarrow> store
    \<Rightarrow> (nat \<times> webhook_reply) \<times> store" where
  "webhooks_post_circle hmacSha256Hex webhookSecret req s =
     (case catch
        (await (signatureRejected hmacSha256Hex webhookSecret req) (\<lambda>rejected.
           if rejected then resolve (401, ErrorReply ''Invalid signature'')
           else
             await (webhookEvent_findFirst (\<lambda>w. w_circleEventId w = wh_Id req)) (\<lambda>existingEvent.
               if (case existingEvent of None \<Rightarrow> False | Some existing \<Rightarrow> w_processed existing)
               then resolve (200, StatusReply ''already_processed'')
               else
                 await (webhookEvent_upsert (wh_Id req) (wh_Type req) (wh_payload req)) (\<lambda>webhookEvent.
                 await (processWebhookEvent (wh_Type req) (wh_Data req) (w_id webhookEvent)) (\<lambda>_.
                 await now (\<lambda>date.
                 await (webhookEvent_update (w_id webhookEvent)
                          (\<lambda>w. w\<lparr>w_processed := True, w_processedAt := Some date\<rparr>)) (\<lambda>_.
                 resolve (200, StatusReply ''processed''))))))))
        (\<lambda>error. resolve (500, ErrorReply ''Webhook processing failed'')) s of
        (Inr reply, s') \<Rightarrow> (reply, s')
      | (Inl error, s') \<Rightarrow> ((500, ErrorReply ''Internal server error''), s'))"

section \<open>The stores the service reaches\<close>

text \<open>
  The stores that arise from one without payments and transactions by what the service
  does: a call of \<open>initiatePayment\<close>; a run of the detached flow; a delivery to the
  webhook route; the passing of time. The steps of the flow are also taken one at a
  time, so that deliveries and other calls may come in between two steps of a flow.
  Calls, flows and steps are taken for any payment id and in any environment, which is
  more than the service does (it starts one flow for each payment it creates).
\<close>

inductive reachable :: "store \<Rightarrow> bool" where
  reachable_start: "payments s = [] \<Longrightarrow> transactions s = [] \<Longrightarrow> reachable s"
| reachable_initiate:
    "reachable s \<Longrightarrow> reachable (snd (initiatePayment uuid request providedIdempotencyKey s))"
| reachable_flow: "reachable s \<Longrightarrow> reachable (runDetachedFlow env paymentId s)"
| reachable_webhook:
    "reachable s \<Longrightarrow> reachable (snd (webhooks_post_circle hmacSha256Hex webhookSecret req s))"
| reachable_time: "reachable s \<Longrightarrow> reachable (snd (elapse ms s))"
| reachable_status:
    "reachable s \<Longrightarrow> reachable (snd (attempt rejection (updatePaymentStatus paymentId status) s))"
| reachable_intent: "reachable s \<Longrightarrow> reachable (snd (createCirclePaymentIntent env paymentId s))"
| reachable_confirmation:
    "reachable s \<Longrightarrow> reachable (snd (simulatePaymentConfirmation env paymentId circlePaymentId s))"
| reachable_exchange1: "reachable s \<Longrightarrow> reachable (snd (exchangeSgdToUsdc env paymentId s))"
| reachable_exchange2: "reachable s \<Longrightarrow> reachable (snd (exchangeUsdcToUsd env paymentId s))"
| reachable_payout: "reachable s \<Longrightarrow> reachable (snd (payoutToVendor env paymentId s))"

text \<open>
  What every such store satisfies, as shown below. Payment ids are distinct and below
  the id counter. The destination amount on a payment is its source amount times the
  two rates. A transaction belongs to a payment id below the counter, carries the fee
  of its step on its own amount, and, when its payment exists, the amount of its step.
\<close>

definition paymentConsistent :: "Payment \<Rightarrow> bool" where
  "paymentConsistent p \<longleftrightarrow>
     p_amountUsd p
       = Some (p_amountSgd p * getExchangeRate ''SGD'' ''USDC'' * getExchangeRate ''USDC'' ''USD'')"

definition feeRecorded :: "Transaction \<Rightarrow> bool" where
  "feeRecorded t \<longleftrightarrow>
     (t_fees t, t_feeCurrency t)
       = (case t_type t of
            PAYMENT_IN \<Rightarrow> (None, None)
          | EXCHANGE_SGD_TO_USDC \<Rightarrow> (Some (t_amount t * (1 / 1000)), Some ''USDC'')
          | EXCHANGE_USDC_TO_USD \<Rightarrow> (Some (t_amount t * (1 / 1000)), Some ''USD'')
          | PAYOUT \<Rightarrow> (Some (t_amount t * (2 / 1000)), Some ''USD''))"

definition amountRecorded :: "Payment \<Rightarrow> Transaction \<Rightarrow> bool" where
  "amountRecorded p t \<longleftrightarrow>
     t_amount t
       = (case t_type t of
            PAYMENT_IN \<Rightarrow> p_amountSgd p
          | EXCHANGE_SGD_TO_USDC \<Rightarrow> p_amountSgd p * getExchangeRate ''SGD'' ''USDC''
          | EXCHANGE_USDC_TO_USD \<Rightarrow>
              p_amountSgd p * getExchangeRate ''SGD'' ''USDC'' * getExchangeRate ''USDC'' ''USD''
          | PAYOUT \<Rightarrow>
              p_amountSgd p * getExchangeRate ''SGD'' ''USDC'' * getExchangeRate ''USDC'' ''USD'')"

definition consistent :: "store \<Rightarrow> bool" where
  "consistent s \<longleftrightarrow>
     distinct (map p_id (payments s))
     \<and> (\<forall>p \<in> set (payments s). p_id p < nextId s \<and> paymentConsistent p)
     \<and> (\<forall>t \<in> set (transactions s).
          t_paymentId t < nextId s \<and> feeRecorded t
          \<and> (\<forall>p \<in> set (payments s). p_id p = t_paymentId t \<longrightarrow> amountRecorded p t))"

text \<open>An async function keeps the property when it leaves a consistent store consistent.\<close>

definition keeps :: "'a io \<Rightarrow> bool" where
  "keeps m \<longleftrightarrow> (\<forall>s. consistent s \<longrightarrow> consistent (snd (m s)))"

section \<open>Fees in the destination currency\<close>

text \<open>
  The spec's words, ``the sum of step fees expressed in destination currency'': each
  transaction's fee, converted to USD at the provider's rate when it is recorded in
  another currency, summed over the payment's transactions.
\<close>

definition spec_feeInUsd :: "Transaction \<Rightarrow> rat" where
  "spec_feeInUsd t =
     (case t_fees t of
        None \<Rightarrow> 0
      | Some fee \<Rightarrow>
          (case t_feeCurrency t of
             None \<Rightarrow> fee
           | Some currency \<Rightarrow> if currency = ''USD'' then fee else fee * getExchangeRate currency ''USD''))"

definition spec_stepFeesUsd :: "nat \<Rightarrow> store \<Rightarrow> rat" where
  "spec_stepFeesUsd paymentId s =
     sum_list (map spec_feeInUsd (filter (\<lambda>t. t_paymentId t = paymentId) (transactions s)))"

section \<open>Sample data\<close>

text \<open>
  A small store and a few requests, used below to run the definitions on concrete
  inputs: three vendors (one active with a bank account, one inactive, one active
  without a bank account) and no payments yet.
\<close>

definition demo_vendor :: Vendor where
  "demo_vendor = \<lparr> v_id = ''v1'', v_status = ACTIVE,
                    v_bankAccount = Some \<lparr> b_circleAccountId = None \<rparr> \<rparr>"

definition demo_inactive_vendor :: Vendor where
  "demo_inactive_vendor = \<lparr> v_id = ''v2'', v_status = INACTIVE,
                             v_bankAccount = Some \<lparr> b_circleAccountId = None \<rparr> \<rparr>"

definition demo_unbanked_vendor :: Vendor where
  "demo_unbanked_vendor = \<lparr> v_id = ''v3'', v_status = ACTIVE, v_bankAccount = None \<rparr>"

definition demo_store :: store where
  "demo_store = \<lparr> vendors = [demo_vendor, demo_inactive_vendor, demo_unbanked_vendor],
                   payments = [], transactions = [], webhookEvents = [],
                   nextId = 1, clock = 1700000000000 \<rparr>"

definition demo_key :: string where
  "demo_key = ''550e8400-e29b-41d4-a716-446655440000''"

definition demo_uuid :: string where
  "demo_uuid = ''7c9e6679-7425-40de-944b-e07fc1f90ae7''"

definition demo_request :: CreatePaymentRequest where
  "demo_request = \<lparr> vendorId = ''v1'', amountSgd = 1000,
                     customerReference = Some ''INV-2024-001'', description = None \<rparr>"

definition demo_inactive_request :: CreatePaymentRequest where
  "demo_inactive_request = \<lparr> vendorId = ''v2'', amountSgd = 1000,
                              customerReference = None, description = None \<rparr>"

text \<open>The payment row the first request creates, and the store after it.\<close>

definition demo_payment :: Payment where
  "demo_payment =
     \<lparr> p_id = 1, p_idempotencyKey = demo_key, p_vendorId = ''v1'', p_amountSgd = 1000,
       p_amountUsd = Some 740, p_exchangeRate = Some (74 / 100), p_status = PENDING,
       p_customerReference = Some ''INV-2024-001'', p_description = None,
       p_expectedSettlementTime = Some 1700001800000, p_actualSettlementTime = None,
       p_circlePaymentId = None, p_createdAt = 1700000000000 \<rparr>"

definition demo_store_created :: store where
  "demo_store_created = demo_store\<lparr>payments := [demo_payment], nextId := 2\<rparr>"

text \<open>A request to the payments route for the active vendor, by amount and key header.\<close>

definition demo_post :: "rat \<Rightarrow> string option \<Rightarrow> PaymentsPostRequest" where
  "demo_post amount key =
     \<lparr> body_vendorId = Some ''v1'', body_amountSgd = Number (Finite amount),
       body_customerReference = None, body_description = None,
       header_idempotencyKey = key \<rparr>"

text \<open>
  A run of the processing flow for payment 1: five milliseconds pass before the payment
  intent is created and none between the later steps, so the two exchanges and the
  payout are recorded in the same millisecond. In the second environment three
  milliseconds pass before every step. Neither rejects a call. In the third the store
  rejects the create of the second exchange (call 9); in the fourth it is down and
  rejects every call.
\<close>

definition demo_env :: flow_env where
  "demo_env = \<lparr> rand36 = ''k3x9q2m1z'', rand16 = ''8f3a1c'',
                 latency = (\<lambda>step. if step = 1 then 5 else 0), rejects = (\<lambda>call. None) \<rparr>"

definition demo_env_spaced :: flow_env where
  "demo_env_spaced = demo_env\<lparr>latency := (\<lambda>step. 3)\<rparr>"

definition demo_env_rejecting :: flow_env where
  "demo_env_rejecting =
     demo_env\<lparr>rejects := (\<lambda>call. if call = 9
                                    then Some (PrismaClientKnownRequestError ''Server has closed the connection.'')
                                    else None)\<rparr>"

definition demo_env_down :: flow_env where
  "demo_env_down =
     demo_env\<lparr>rejects := (\<lambda>call. Some (PrismaClientKnownRequestError ''Server has closed the connection.''))\<rparr>"

definition demo_store_settled :: store where
  "demo_store_settled = snd (processPaymentFlow demo_env 1 demo_store_created)"

text \<open>
  A store for the webhook route: payment 1 in progress, with its payment-intent,
  exchange and payout transactions recorded, and no webhook event yet. The second store
  holds the same payment in the terminal state FAILED.
\<close>

definition demo_hook_payment :: Payment where
  "demo_hook_payment =
     demo_payment\<lparr>p_status := PROCESSING, p_actualSettlementTime := Some 1700000002005,
                   p_circlePaymentId := Some ''pi_1700000000005_k3x9q2m1z''\<rparr>"

definition demo_exchange_tx :: Transaction where
  "demo_exchange_tx =
     \<lparr> t_id = 3, t_paymentId = 1, t_type = EXCHANGE_SGD_TO_USDC, t_status = TX_CONFIRMED,
       t_amount = 740, t_currency = ''USDC'',
       t_circleTransactionId = Some ''exchange-sgd-usdc-1700000002005'',
       t_fees = Some (74 / 100), t_feeCurrency = Some ''USDC'', t_blockchainTxHash = None,
       t_createdAt = 1700000002005 \<rparr>"

definition demo_payout_tx :: Transaction where
  "demo_payout_tx =
     \<lparr> t_id = 5, t_paymentId = 1, t_type = PAYOUT, t_status = TX_PENDING,
       t_amount = 740, t_currency = ''USD'',
       t_circleTransactionId = Some ''payout-1700000002005'',
       t_fees = Some (148 / 100), t_feeCurrency = Some ''USD'', t_blockchainTxHash = None,
       t_createdAt = 1700000002005 \<rparr>"

definition demo_hook_store :: store where
  "demo_hook_store =
     \<lparr> vendors = [demo_vendor], payments = [demo_hook_payment],
       transactions = [demo_exchange_tx, demo_payout_tx], webhookEvents = [],
       nextId = 6, clock = 1700000009000 \<rparr>"

definition demo_hook_store_failed :: store where
  "demo_hook_store_failed = demo_hook_store\<lparr>payments := [demo_hook_payment\<lparr>p_status := FAILED\<rparr>]\<rparr>"

text \<open>
  A webhook request by signature header, event type, event id and the id in its data.
  The payload string stands for the serialised body. \<open>demo_digest\<close> stands in for the
  HMAC: a function that returns 64 hexadecimal digits, as a SHA-256 digest does.
\<close>

definition demo_hook_request :: "string option \<Rightarrow> string \<Rightarrow> string \<Rightarrow> string \<Rightarrow> CircleWebhookRequest" where
  "demo_hook_request signature eventType eventId dataId =
     \<lparr> header_signature = signature, wh_payload = ''{Type,Id,Data}'',
       wh_Type = eventType, wh_Id = eventId,
       wh_Data = \<lparr> ed_id = dataId, ed_transactionHash = None \<rparr> \<rparr>"

definition demo_digest :: "string \<Rightarrow> string \<Rightarrow> string" where
  "demo_digest secret payload = concat (replicate 32 ''5a'')"

text \<open>The store after a first delivery of event \<open>evt-1\<close>, a \<open>payout.completed\<close>.\<close>

definition demo_hook_store_processed :: store where
  "demo_hook_store_processed =
     snd (webhooks_post_circle demo_digest None
            (demo_hook_request None ''payout.completed'' ''evt-1'' ''payout-1700000002005'')
            demo_hook_store_failed)"

section \<open>Auxiliary facts\<close>

lemmas io_defs = resolve_def throw_def await_def catch_def query_def now_def setTimeout_def elapse_def
  vendor_findFirst_def payment_findFirst_def payment_create_def payment_update_def
  transaction_findFirst_def transaction_create_def transaction_updateMany_def transaction_update_def
  webhookEvent_findFirst_def webhookEvent_update_def webhookEvent_upsert_def

lemmas demo_defs = demo_vendor_def demo_inactive_vendor_def demo_unbanked_vendor_def demo_store_def
  demo_key_def demo_uuid_def demo_request_def demo_inactive_request_def demo_payment_def
  demo_store_created_def demo_post_def demo_env_def demo_env_spaced_def demo_env_rejecting_def demo_env_down_def
  demo_hook_payment_def demo_exchange_tx_def demo_payout_tx_def demo_hook_store_def
  demo_hook_store_failed_def demo_hook_request_def

lemma attempt_None [simp]: "attempt None call = call"
  by (simp add: attempt_def)

lemma attempt_Some [simp]: "attempt (Some e) call = throw e"
  by (simp add: attempt_def)

lemma find_append_new:
  "find P xs = None \<Longrightarrow> P x \<Longrightarrow> find P (xs @ [x]) = Some x"
  by (induction xs) (auto split: if_splits)

section \<open>Initiation\<close>

lemma initiatePayment_existing:
  assumes "k \<noteq> []" and "find (\<lambda>p. p_idempotencyKey p = k) (payments s) = Some p"
  shows "initiatePayment uuid request (Some k) s = (Inr (paymentResponse p, None), s)"
  using assms
  by (simp add: initiatePayment_def catch_def await_def payment_findFirst_def query_def resolve_def)

lemma initiatePayment_new:
  assumes "k \<noteq> []" and "find (\<lambda>p. p_idempotencyKey p = k) (payments s) = None"
    and "initiatePayment uuid request (Some k) s = (Inr (r, started), s')"
  shows "\<exists>p. payments s' = payments s @ [p] \<and> p_idempotencyKey p = k \<and> r = paymentResponse p
           \<and> started = Some (p_id p) \<and> transactions s' = transactions s"
  using assms
  by (auto simp add: initiatePayment_def io_defs Let_def split: option.splits)

text \<open>
  Claim C1. A call of \<open>initiatePayment\<close> with a provided (non-empty) idempotency key
  succeeds, with response \<open>r\<close>, leaving the store \<open>s'\<close>. Then any second call with
  the same key, whatever its request and whatever key the generator would offer, returns
  the same response \<open>r\<close>, leaves the store \<open>s'\<close> exactly as it is (no payment row, no
  transaction, nothing recomputed or rewritten) and starts no processing flow. The
  response is that of the stored payment: a row is found under the key in \<open>s'\<close>, and
  the payment id, the status, the two amounts, the expected settlement time and the key
  of the response are those of this row. The same holds in any later store \<open>s2\<close>: when
  a row \<open>p2\<close> is found under the key, the call returns the payment id, status, amounts,
  expected settlement time and key of \<open>p2\<close> as they stand, changes nothing and starts
  no flow.
\<close>

theorem initiate_twice_same_key:
  assumes "k \<noteq> []"
    and "initiatePayment uuid request (Some k) s = (Inr (r, started), s')"
  shows "initiatePayment uuid' request' (Some k) s' = (Inr (r, None), s')
         \<and> (\<exists>p. find (\<lambda>p. p_idempotencyKey p = k) (payments s') = Some p
                \<and> r_paymentId r = p_id p \<and> r_status r = p_status p
                \<and> r_amountSgd r = p_amountSgd p \<and> r_estimatedAmountUsd r = p_amountUsd p
                \<and> r_expectedSettlementTime r = p_expectedSettlementTime p
                \<and> r_idempotencyKey r = k)
         \<and> (find (\<lambda>p. p_idempotencyKey p = k) (payments s2) = Some p2
              \<longrightarrow> initiatePayment uuid' request' (Some k) s2
                  = (Inr (\<lparr> r_paymentId = p_id p2, r_status = p_status p2,
                            r_amountSgd = p_amountSgd p2, r_estimatedAmountUsd = p_amountUsd p2,
                            r_expectedSettlementTime = p_expectedSettlementTime p2,
                            r_idempotencyKey = k \<rparr>, None), s2))"
proof -
  have key: "p_idempotencyKey p = k" if "find (\<lambda>p. p_idempotencyKey p = k) (payments t) = Some p" for p t
    using that by (auto simp: find_Some_iff)
  have later: "find (\<lambda>p. p_idempotencyKey p = k) (payments s2) = Some p2
              \<longrightarrow> initiatePayment uuid' request' (Some k) s2
                  = (Inr (\<lparr> r_paymentId = p_id p2, r_status = p_status p2,
                            r_amountSgd = p_amountSgd p2, r_estimatedAmountUsd = p_amountUsd p2,
                            r_expectedSettlementTime = p_expectedSettlementTime p2,
                            r_idempotencyKey = k \<rparr>, None), s2)"
  proof
    assume found: "find (\<lambda>p. p_idempotencyKey p = k) (payments s2) = Some p2"
    from initiatePayment_existing [OF assms(1) found] key [OF found]
    show "initiatePayment uuid' request' (Some k) s2
                  = (Inr (\<lparr> r_paymentId = p_id p2, r_status = p_status p2,
                            r_amountSgd = p_amountSgd p2, r_estimatedAmountUsd = p_amountUsd p2,
                            r_expectedSettlementTime = p_expectedSettlementTime p2,
                            r_idempotencyKey = k \<rparr>, None), s2)"
      by (simp add: paymentResponse_def)
  qed
  have stored: "\<exists>p. find (\<lambda>p. p_idempotencyKey p = k) (payments s') = Some p \<and> r = paymentResponse p"
  proof (cases "find (\<lambda>p. p_idempotencyKey p = k) (payments s)")
    case None
    from initiatePayment_new [OF assms(1) None assms(2)]
    obtain p where p: "payments s' = payments s @ [p]" "p_idempotencyKey p = k" "r = paymentResponse p"
      by blast
    have "find (\<lambda>p. p_idempotencyKey p = k) (payments s') = Some p"
      using None p by (simp add: find_append_new)
    with p(3) show ?thesis by blast
  next
    case (Some p)
    from initiatePayment_existing [OF assms(1) Some] assms(2)
    have "s' = s" "r = paymentResponse p" by simp_all
    with Some show ?thesis by blast
  qed
  then obtain p where p: "find (\<lambda>p. p_idempotencyKey p = k) (payments s') = Some p"
    and r: "r = paymentResponse p"
    by blast
  have again: "initiatePayment uuid' request' (Some k) s' = (Inr (r, None), s')"
    using initiatePayment_existing [OF assms(1) p] r by simp
  have fields: "\<exists>p. find (\<lambda>p. p_idempotencyKey p = k) (payments s') = Some p
                \<and> r_paymentId r = p_id p \<and> r_status r = p_status p
                \<and> r_amountSgd r = p_amountSgd p \<and> r_estimatedAmountUsd r = p_amountUsd p
                \<and> r_expectedSettlementTime r = p_expectedSettlementTime p
                \<and> r_idempotencyKey r = k"
    using p key [OF p] by (intro exI [of _ p]) (simp add: r paymentResponse_def)
  from again fields later show ?thesis by blast
qed

text \<open>
  The sample store: the first call creates payment 1 for 1000 SGD, estimated at 740 USD;
  a second call under the same key, this time naming the inactive vendor and another
  amount, gets payment 1 back as it is stored and changes nothing. Once the flow has
  run, the same call reports payment 1 as COMPLETED with the stored amounts, again
  without changing anything.
\<close>

theorem initiate_twice_same_key_witness:
  "demo_key \<noteq> []
   \<and> initiatePayment demo_uuid demo_request (Some demo_key) demo_store
       = (Inr (\<lparr> r_paymentId = 1, r_status = PENDING, r_amountSgd = 1000,
                 r_estimatedAmountUsd = Some 740, r_expectedSettlementTime = Some 1700001800000,
                 r_idempotencyKey = demo_key \<rparr>, Some 1), demo_store_created)
   \<and> initiatePayment demo_uuid (demo_inactive_request\<lparr>amountSgd := 5\<rparr>) (Some demo_key) demo_store_created
       = (Inr (\<lparr> r_paymentId = 1, r_status = PENDING, r_amountSgd = 1000,
                 r_estimatedAmountUsd = Some 740, r_expectedSettlementTime = Some 1700001800000,
                 r_idempotencyKey = demo_key \<rparr>, None), demo_store_created)
   \<and> find (\<lambda>p. p_idempotencyKey p = demo_key) (payments demo_store_created) = Some demo_payment
   \<and> initiatePayment demo_uuid (demo_inactive_request\<lparr>amountSgd := 5\<rparr>) (Some demo_key) demo_store_settled
       = (Inr (\<lparr> r_paymentId = 1, r_status = COMPLETED, r_amountSgd = 1000,
                 r_estimatedAmountUsd = Some 740, r_expectedSettlementTime = Some 1700001800000,
                 r_idempotencyKey = demo_key \<rparr>, None), demo_store_settled)"
proof -
  let ?again = "demo_inactive_request\<lparr>amountSgd := 5\<rparr>"
  have k: "demo_key \<noteq> []"
    by (simp add: demo_key_def)
  have first: "initiatePayment demo_uuid demo_request (Some demo_key) demo_store
       = (Inr (\<lparr> r_paymentId = 1, r_status = PENDING, r_amountSgd = 1000,
                 r_estimatedAmountUsd = Some 740, r_expectedSettlementTime = Some 1700001800000,
                 r_idempotencyKey = demo_key \<rparr>, Some 1), demo_store_created)"
    by (simp add: initiatePayment_def io_defs demo_defs getExchangeRate_def mockRates_def
          paymentResponse_def Let_def)
  have row: "find (\<lambda>p. p_idempotencyKey p = demo_key) (payments demo_store_created) = Some demo_payment"
    by (simp add: demo_defs)
  have "\<exists>p2. find (\<lambda>p. p_idempotencyKey p = demo_key) (payments demo_store_settled) = Some p2
           \<and> p_id p2 = 1 \<and> p_status p2 = COMPLETED \<and> p_amountSgd p2 = 1000 \<and> p_amountUsd p2 = Some 740
           \<and> p_expectedSettlementTime p2 = Some 1700001800000"
    by (simp add: demo_store_settled_def processPaymentFlow_def paymentFlowSteps_def
          updatePaymentStatus_def createCirclePaymentIntent_def simulatePaymentConfirmation_def
          exchangeSgdToUsdc_def exchangeUsdcToUsd_def payoutToVendor_def io_defs demo_defs
          getExchangeRate_def mockRates_def update_where_def Let_def)
  then obtain p2 where p2: "find (\<lambda>p. p_idempotencyKey p = demo_key) (payments demo_store_settled) = Some p2"
    "p_id p2 = 1" "p_status p2 = COMPLETED" "p_amountSgd p2 = 1000" "p_amountUsd p2 = Some 740"
    "p_expectedSettlementTime p2 = Some 1700001800000"
    by blast
  from initiate_twice_same_key [OF k first, of demo_uuid ?again demo_store_settled p2]
       k first row p2
  show ?thesis
    by simp
qed

text \<open>
  Claim C7. The key the call works with (the provided one, or the generated one when
  none or an empty one is provided) is fresh: no payment carries it. No vendor row with
  the requested id is both ACTIVE and equipped with a bank account: the vendor is
  unknown, or not ACTIVE, or has no bank account. Then \<open>initiatePayment\<close> throws, with
  one of the two messages the spec calls VendorUnavailable, and the store is the one it
  started from: no payment row was created. The throw carries no started flow.
\<close>

theorem initiate_vendor_unavailable:
  assumes fresh:
      "find (\<lambda>p. p_idempotencyKey p
                    = (case provided of None \<Rightarrow> uuid | Some k \<Rightarrow> if k = [] then uuid else k))
         (payments s) = None"
    and unavailable:
      "\<not> (\<exists>v \<in> set (vendors s).
              v_id v = vendorId request \<and> v_status v = ACTIVE \<and> v_bankAccount v \<noteq> None)"
  shows "initiatePayment uuid request provided s
           = (Inl (Error ''Payment initiation failed: Vendor not found or inactive''), s)
       \<or> initiatePayment uuid request provided s
           = (Inl (Error ''Payment initiation failed: Vendor bank account not configured''), s)"
proof (cases "find (\<lambda>v. v_id v = vendorId request \<and> v_status v = ACTIVE) (vendors s)")
  case None
  then show ?thesis using fresh
    by (simp add: initiatePayment_def io_defs Let_def)
next
  case (Some v)
  then have "v_id v = vendorId request" "v_status v = ACTIVE" "v \<in> set (vendors s)"
    by (auto simp: find_Some_iff)
  with unavailable have "v_bankAccount v = None" by blast
  then show ?thesis using Some fresh
    by (simp add: initiatePayment_def io_defs Let_def)
qed

text \<open>
  The sample store: a request for the inactive vendor and one for the vendor without a
  bank account are both rejected, and the store is untouched.
\<close>

theorem initiate_vendor_unavailable_witness:
  "find (\<lambda>p. p_idempotencyKey p = demo_key) (payments demo_store) = None
   \<and> \<not> (\<exists>v \<in> set (vendors demo_store).
           v_id v = vendorId demo_inactive_request \<and> v_status v = ACTIVE \<and> v_bankAccount v \<noteq> None)
   \<and> initiatePayment demo_uuid demo_inactive_request (Some demo_key) demo_store
       = (Inl (Error ''Payment initiation failed: Vendor not found or inactive''), demo_store)
   \<and> initiatePayment demo_uuid (demo_inactive_request\<lparr>vendorId := ''v3''\<rparr>) None demo_store
       = (Inl (Error ''Payment initiation failed: Vendor bank account not configured''), demo_store)"
proof -
  let ?unbanked = "demo_inactive_request\<lparr>vendorId := ''v3''\<rparr>"
  have h1: "find (\<lambda>p. p_idempotencyKey p
                    = (case provided of None \<Rightarrow> demo_uuid | Some k \<Rightarrow> if k = [] then demo_uuid else k))
              (payments demo_store) = None" for provided
    by (simp add: demo_defs)
  have h2: "\<not> (\<exists>v \<in> set (vendors demo_store).
           v_id v = vendorId demo_inactive_request \<and> v_status v = ACTIVE \<and> v_bankAccount v \<noteq> None)"
    by (simp add: demo_defs)
  have h3: "\<not> (\<exists>v \<in> set (vendors demo_store).
           v_id v = vendorId ?unbanked \<and> v_status v = ACTIVE \<and> v_bankAccount v \<noteq> None)"
    by (simp add: demo_defs)
  have inactive: "initiatePayment demo_uuid demo_inactive_request (Some demo_key) demo_store
       \<noteq> (Inl (Error ''Payment initiation failed: Vendor bank account not configured''), demo_store)"
    by (simp add: initiatePayment_def io_defs demo_defs Let_def)
  have unbanked: "initiatePayment demo_uuid ?unbanked None demo_store
       \<noteq> (Inl (Error ''Payment initiation failed: Vendor not found or inactive''), demo_store)"
    by (simp add: initiatePayment_def io_defs demo_defs Let_def)
  have none: "find (\<lambda>p. p_idempotencyKey p = demo_key) (payments demo_store) = None"
    by (simp add: demo_defs)
  from initiate_vendor_unavailable [OF h1 h2, of "Some demo_key"]
       initiate_vendor_unavailable [OF h1 h3, of None]
       inactive unbanked none h2
  show ?thesis by simp
qed

section \<open>Validation at the payments route\<close>

lemma list_all2_weaken:
  "list_all2 R xs k \<Longrightarrow> list_all2 (\<lambda>x y. \<forall>c. R x c \<longrightarrow> R y c) xs ys \<Longrightarrow> list_all2 R ys k"
proof (induction xs k arbitrary: ys rule: list_all2_induct)
  case Nil
  then show ?case by simp
next
  case (Cons x xs c k)
  then show ?case by (cases ys) auto
qed

lemma uuidRegex_refines_shape:
  "list_all2 (\<lambda>x y. \<forall>c. in_class x c \<longrightarrow> in_class y c) uuidRegex spec_uuidShape"
  by (simp add: uuidRegex_def spec_uuidShape_def eval_nat_numeral)

lemma validateIdempotencyKey_shaped:
  "validateIdempotencyKey k \<Longrightarrow> spec_uuidShaped k"
  unfolding validateIdempotencyKey_def spec_uuidShaped_def
  by (rule list_all2_weaken [OF _ uuidRegex_refines_shape])

text \<open>
  Claim C9, as amended. For a numeric amount \<open>a\<close> the amount check passes exactly when
  \<open>0 < a \<le> 1,000,000\<close>. A request that names a vendor and carries an amount outside
  that range is answered 400 and changes nothing. A request that names a vendor, carries
  an amount inside the range and has no key, an empty key header or a key the pattern
  admits is handed to \<open>initiatePayment\<close>, whose result decides between 201 and 400. A
  request whose key header is a non-empty string that is not UUID-shaped is answered 400
  and changes nothing, whatever else it carries. An empty key header counts as no key.
\<close>

theorem payments_post_validation:
  "(validateAmount (Number (Finite a)) = (0 < a \<and> a \<le> 1000000))
   \<and> (body_vendorId req1 = Some v1 \<and> v1 \<noteq> [] \<and> body_amountSgd req1 = Number (Finite a1)
        \<and> \<not> (0 < a1 \<and> a1 \<le> 1000000)
      \<longrightarrow> payments_post uuid req1 s
          = ((400, ErrorMessage ''Valid amountSgd is required (must be > 0 and <= 1,000,000)''), None, s))
   \<and> (body_vendorId req2 = Some v2 \<and> v2 \<noteq> [] \<and> body_amountSgd req2 = Number (Finite a2)
        \<and> 0 < a2 \<and> a2 \<le> 1000000
        \<and> (header_idempotencyKey req2 = None \<or> header_idempotencyKey req2 = Some []
             \<or> (\<exists>k. header_idempotencyKey req2 = Some k \<and> validateIdempotencyKey k))
      \<longrightarrow> payments_post uuid req2 s
          = (case initiatePayment uuid
                    \<lparr> vendorId = v2, amountSgd = a2, customerReference = body_customerReference req2,
                      description = body_description req2 \<rparr> (header_idempotencyKey req2) s of
               (Inr (payment, started), s') \<Rightarrow> ((201, PaymentCreated payment), started, s')
             | (Inl error, s') \<Rightarrow> ((400, ErrorMessage (message error)), None, s')))
   \<and> (header_idempotencyKey req3 = Some k3 \<and> k3 \<noteq> [] \<and> \<not> spec_uuidShaped k3
      \<longrightarrow> fst (fst (payments_post uuid req3 s)) = 400 \<and> snd (payments_post uuid req3 s) = (None, s))"
proof -
  have amount: "validateAmount (Number (Finite a)) = (0 < a \<and> a \<le> 1000000)"
    by simp
  have rejected: "payments_post uuid req1 s
          = ((400, ErrorMessage ''Valid amountSgd is required (must be > 0 and <= 1,000,000)''), None, s)"
    if "body_vendorId req1 = Some v1" "v1 \<noteq> []" "body_amountSgd req1 = Number (Finite a1)"
      "\<not> (0 < a1 \<and> a1 \<le> 1000000)"
    using that by (auto simp add: payments_post_def)
  have accepted: "payments_post uuid req2 s
          = (case initiatePayment uuid
                    \<lparr> vendorId = v2, amountSgd = a2, customerReference = body_customerReference req2,
                      description = body_description req2 \<rparr> (header_idempotencyKey req2) s of
               (Inr (payment, started), s') \<Rightarrow> ((201, PaymentCreated payment), started, s')
             | (Inl error, s') \<Rightarrow> ((400, ErrorMessage (message error)), None, s'))"
    if "body_vendorId req2 = Some v2" "v2 \<noteq> []" "body_amountSgd req2 = Number (Finite a2)"
      "0 < a2" "a2 \<le> 1000000"
      "header_idempotencyKey req2 = None \<or> header_idempotencyKey req2 = Some []
             \<or> (\<exists>k. header_idempotencyKey req2 = Some k \<and> validateIdempotencyKey k)"
    using that by (auto simp add: payments_post_def)
  have key: "fst (fst (payments_post uuid req3 s)) = 400 \<and> snd (payments_post uuid req3 s) = (None, s)"
    if "header_idempotencyKey req3 = Some k3" "k3 \<noteq> []" "\<not> spec_uuidShaped k3"
  proof -
    from that(3) have "\<not> validateIdempotencyKey k3"
      using validateIdempotencyKey_shaped by blast
    with that(1,2) show ?thesis
      by (auto simp add: payments_post_def split: option.splits)
  qed
  from amount rejected accepted key show ?thesis by blast
qed

text \<open>
  The boundaries on the sample store: 0 and 1,000,000.01 are answered 400; 1,000,000
  under a well-formed key is answered 201; a key that is not UUID-shaped is answered 400.
\<close>

theorem payments_post_validation_witness:
  "payments_post demo_uuid (demo_post 0 None) demo_store
     = ((400, ErrorMessage ''Valid amountSgd is required (must be > 0 and <= 1,000,000)''), None, demo_store)
   \<and> payments_post demo_uuid (demo_post (1000000 + 1 / 100) None) demo_store
     = ((400, ErrorMessage ''Valid amountSgd is required (must be > 0 and <= 1,000,000)''), None, demo_store)
   \<and> validateIdempotencyKey demo_key
   \<and> fst (fst (payments_post demo_uuid (demo_post 1000000 (Some demo_key)) demo_store)) = 201
   \<and> \<not> spec_uuidShaped ''not-a-uuid''
   \<and> fst (fst (payments_post demo_uuid (demo_post 1000 (Some ''not-a-uuid'')) demo_store)) = 400
   \<and> snd (payments_post demo_uuid (demo_post 1000 (Some ''not-a-uuid'')) demo_store) = (None, demo_store)"
proof -
  have good: "validateIdempotencyKey demo_key"
    by (simp add: validateIdempotencyKey_def uuidRegex_def demo_key_def eval_nat_numeral)
  have bad: "\<not> spec_uuidShaped ''not-a-uuid''"
    by (simp add: spec_uuidShaped_def spec_uuidShape_def eval_nat_numeral)
  have created: "fst (fst (case initiatePayment demo_uuid
                    \<lparr> vendorId = ''v1'', amountSgd = 1000000, customerReference = None,
                      description = None \<rparr> (Some demo_key) demo_store of
               (Inr (payment, started), s') \<Rightarrow> ((201, PaymentCreated payment), started, s')
             | (Inl error, s') \<Rightarrow> ((400, ErrorMessage (message error)), None, s'))) = (201 :: nat)"
    by (simp add: initiatePayment_def io_defs demo_defs Let_def)
  from payments_post_validation
         [of 0 "demo_post 0 None" "''v1''" 0 demo_uuid demo_store
             "demo_post 1000000 (Some demo_key)" "''v1''" 1000000
             "demo_post 1000 (Some ''not-a-uuid'')" "''not-a-uuid''"]
       payments_post_validation
         [of 0 "demo_post (1000000 + 1 / 100) None" "''v1''" "1000000 + 1 / 100" demo_uuid demo_store
             "demo_post 1000000 (Some demo_key)" "''v1''" 1000000
             "demo_post 1000 (Some ''not-a-uuid'')" "''not-a-uuid''"]
       good bad created
  show ?thesis
    by (simp add: demo_post_def)
qed

text \<open>
  The claim as written fails for the empty key header: it is not UUID-shaped, yet the
  request is answered 201 (the handler treats it as absent and a key is generated).
\<close>

theorem payments_post_empty_key_counterexample:
  "\<not> spec_uuidShaped []
   \<and> fst (fst (payments_post demo_uuid (demo_post 1000 (Some [])) demo_store)) = 201"
proof -
  have "\<not> spec_uuidShaped []"
    by (simp add: spec_uuidShaped_def spec_uuidShape_def eval_nat_numeral)
  moreover have "fst (fst (payments_post demo_uuid (demo_post 1000 (Some [])) demo_store)) = 201"
    by (simp add: payments_post_def demo_post_def initiatePayment_def io_defs demo_defs Let_def)
  ultimately show ?thesis by simp
qed

section \<open>The processing flow\<close>

lemma find_id_update_where [simp]:
  "(\<And>p. p_id (f p) = p_id p) \<Longrightarrow>
   find (\<lambda>p. p_id p = pid) (update_where (\<lambda>p. p_id p = pid) f ps)
     = map_option f (find (\<lambda>p. p_id p = pid) ps)"
  by (induction ps) (auto simp: update_where_def)

lemma update_where_append [simp]:
  "update_where P f (xs @ ys) = update_where P f xs @ update_where P f ys"
  by (simp add: update_where_def)

lemma update_where_Cons [simp]:
  "update_where P f (x # xs) = (if P x then f x else x) # update_where P f xs"
  by (simp add: update_where_def)

lemma update_where_Nil [simp]: "update_where P f [] = []"
  by (simp add: update_where_def)

lemma length_update_where [simp]: "length (update_where P f xs) = length xs"
  by (simp add: update_where_def)

lemma map_t_id_update_where [simp]:
  "(\<And>t. t_id (f t) = t_id t) \<Longrightarrow> map t_id (update_where P f ts) = map t_id ts"
  by (induction ts) auto

lemma fresh_update_where [simp]:
  "\<forall>t\<in>set ts. t_paymentId t \<noteq> pid \<Longrightarrow>
   update_where (\<lambda>t. t_paymentId t = pid \<and> Q t) f ts = ts"
  by (induction ts) auto

lemma fresh_filter_conj [simp]:
  "\<forall>t\<in>set ts. t_paymentId t \<noteq> pid \<Longrightarrow> filter (\<lambda>t. t_paymentId t = pid \<and> Q t) ts = []"
  by (induction ts) auto

lemma fresh_filter [simp]:
  "\<forall>t\<in>set ts. t_paymentId t \<noteq> pid \<Longrightarrow> filter (\<lambda>t. t_paymentId t = pid) ts = []"
  by (induction ts) auto

lemma update_where_idem:
  "(\<And>x. f (f x) = f x) \<Longrightarrow> (\<And>x. P (f x) = P x)
     \<Longrightarrow> update_where P f (update_where P f xs) = update_where P f xs"
  by (induction xs) auto

lemma case_snoc [simp]:
  "(case xs @ [y] of [] \<Rightarrow> a | h # t \<Rightarrow> b h t) = (case xs of [] \<Rightarrow> b y [] | h # t \<Rightarrow> b h (t @ [y]))"
  by (cases xs) auto

lemmas body_defs = paymentFlowSteps_def updatePaymentStatus_def
  createCirclePaymentIntent_def simulatePaymentConfirmation_def exchangeSgdToUsdc_def
  exchangeUsdcToUsd_def payoutToVendor_def

lemmas flow_defs = processPaymentFlow_def body_defs

lemma flow_ok_iff:
  "processPaymentFlow env pid s = (Inr (), s') \<longleftrightarrow> paymentFlowSteps env pid s = (Inr (), s')"
  by (auto simp: processPaymentFlow_def catch_def await_def throw_def split: prod.splits sum.splits)

lemma flow_thrown:
  assumes "paymentFlowSteps env pid s = (Inl e, sf)"
    and "find (\<lambda>p. p_id p = pid) (payments sf) = Some q"
  shows "processPaymentFlow env pid s
           = (case rejects env 15 of
                None \<Rightarrow> (Inl e, sf\<lparr>payments := update_where (\<lambda>p. p_id p = pid)
                                               (\<lambda>p. p\<lparr>p_status := FAILED\<rparr>) (payments sf)\<rparr>)
              | Some e' \<Rightarrow> (Inl e', sf))"
  using assms
  by (simp add: processPaymentFlow_def catch_def await_def throw_def updatePaymentStatus_def
        payment_update_def split: option.splits)

lemma runDetachedFlow_thrown:
  assumes "paymentFlowSteps env pid s = (Inl e, sf)"
    and "find (\<lambda>p. p_id p = pid) (payments sf) = Some q"
  shows "runDetachedFlow env pid s
           = (if rejects env 15 = None \<or> rejects env 16 = None
              then sf\<lparr>payments := update_where (\<lambda>p. p_id p = pid)
                                     (\<lambda>p. p\<lparr>p_status := FAILED\<rparr>) (payments sf)\<rparr>
              else sf)"
  using assms(2)
  by (cases "rejects env 15"; cases "rejects env 16")
     (simp_all add: runDetachedFlow_def flow_thrown [OF assms] updatePaymentStatus_def
        payment_update_def throw_def update_where_idem)

lemma initiatePaymentAndFlow_response:
  "fst (initiatePaymentAndFlow env uuid request key s)
     = map_sum id fst (fst (initiatePayment uuid request key s))"
  by (simp add: initiatePaymentAndFlow_def split: prod.splits sum.splits option.splits)

lemma first_rejected:
  obtains (accepted) "\<forall>j. 1 \<le> j \<and> j \<le> n \<longrightarrow> rejects env j = None"
  | (rejected) i e0 where "1 \<le> i" "i \<le> n" "\<forall>j. 1 \<le> j \<and> j < i \<longrightarrow> rejects env j = None"
      "rejects env i = Some e0"
proof (cases "\<exists>i. 1 \<le> i \<and> i \<le> n \<and> rejects env i \<noteq> None")
  case False
  then show ?thesis using accepted by blast
next
  case True
  define i where "i = (LEAST i. 1 \<le> i \<and> i \<le> n \<and> rejects env i \<noteq> None)"
  from True have i: "1 \<le> i \<and> i \<le> n \<and> rejects env i \<noteq> None"
    unfolding i_def by (rule LeastI_ex)
  have least: "\<not> (1 \<le> j \<and> j \<le> n \<and> rejects env j \<noteq> None)" if "j < i" for j
    using that not_less_Least unfolding i_def by blast
  from i obtain e0 where "rejects env i = Some e0" by auto
  moreover have "\<forall>j. 1 \<le> j \<and> j < i \<longrightarrow> rejects env j = None"
    using least i by (meson le_trans less_imp_le_nat)
  ultimately show ?thesis using rejected i by blast
qed

lemma body_rejected:
  assumes row: "find (\<lambda>p. p_id p = pid) (payments s) = Some p"
    and fresh: "\<forall>t\<in>set (transactions s). t_paymentId t \<noteq> pid"
    and i: "1 \<le> i" "i \<le> 11"
    and before: "\<forall>j. 1 \<le> j \<and> j < i \<longrightarrow> rejects env j = None"
    and rejected: "rejects env i = Some e0"
  shows "\<exists>e. fst (paymentFlowSteps env pid s) = Inl e"
    and "take (length (transactions s)) (transactions (snd (paymentFlowSteps env pid s))) = transactions s"
    and "map t_type (drop (length (transactions s)) (transactions (snd (paymentFlowSteps env pid s))))
           = take (createsBefore i) [PAYMENT_IN, EXCHANGE_SGD_TO_USDC, EXCHANGE_USDC_TO_USD, PAYOUT]"
    and "map t_amount (drop (length (transactions s)) (transactions (snd (paymentFlowSteps env pid s))))
           = take (createsBefore i)
               [p_amountSgd p, p_amountSgd p * getExchangeRate ''SGD'' ''USDC'',
                p_amountSgd p * getExchangeRate ''SGD'' ''USDC'' * getExchangeRate ''USDC'' ''USD'',
                p_amountSgd p * getExchangeRate ''SGD'' ''USDC'' * getExchangeRate ''USDC'' ''USD'']"
    and "\<exists>q. find (\<lambda>p. p_id p = pid) (payments (snd (paymentFlowSteps env pid s))) = Some q"
proof -
  from i have cases: "i = 1 \<or> i = 2 \<or> i = 3 \<or> i = 4 \<or> i = 5 \<or> i = 6 \<or> i = 7 \<or> i = 8
                        \<or> i = 9 \<or> i = 10 \<or> i = 11"
    by arith
  note facts = cases row fresh before rejected
  show "\<exists>e. fst (paymentFlowSteps env pid s) = Inl e"
    using facts by (elim disjE) (simp_all add: body_defs io_defs Let_def)
  show "take (length (transactions s)) (transactions (snd (paymentFlowSteps env pid s))) = transactions s"
    using facts by (elim disjE) (simp_all add: body_defs io_defs Let_def)
  show "map t_type (drop (length (transactions s)) (transactions (snd (paymentFlowSteps env pid s))))
           = take (createsBefore i) [PAYMENT_IN, EXCHANGE_SGD_TO_USDC, EXCHANGE_USDC_TO_USD, PAYOUT]"
    using facts by (elim disjE) (simp_all add: body_defs io_defs Let_def createsBefore_def)
  show "map t_amount (drop (length (transactions s)) (transactions (snd (paymentFlowSteps env pid s))))
           = take (createsBefore i)
               [p_amountSgd p, p_amountSgd p * getExchangeRate ''SGD'' ''USDC'',
                p_amountSgd p * getExchangeRate ''SGD'' ''USDC'' * getExchangeRate ''USDC'' ''USD'',
                p_amountSgd p * getExchangeRate ''SGD'' ''USDC'' * getExchangeRate ''USDC'' ''USD'']"
    using facts by (elim disjE) (simp_all add: body_defs io_defs Let_def createsBefore_def)
  show "\<exists>q. find (\<lambda>p. p_id p = pid) (payments (snd (paymentFlowSteps env pid s))) = Some q"
    using facts by (elim disjE) (simp_all add: body_defs io_defs Let_def)
qed

lemma body_rejected_payout:
  assumes row: "find (\<lambda>p. p_id p = pid) (payments s) = Some p"
    and vendor: "find (\<lambda>v. v_id v = p_vendorId p) (vendors s) = Some v" "v_bankAccount v = Some b"
    and fresh: "\<forall>t\<in>set (transactions s). t_paymentId t \<noteq> pid"
    and i: "12 \<le> i" "i \<le> 14"
    and before: "\<forall>j. 1 \<le> j \<and> j < i \<longrightarrow> rejects env j = None"
    and rejected: "rejects env i = Some e0"
  shows "\<exists>e. fst (paymentFlowSteps env pid s) = Inl e"
    and "take (length (transactions s)) (transactions (snd (paymentFlowSteps env pid s))) = transactions s"
    and "map t_type (drop (length (transactions s)) (transactions (snd (paymentFlowSteps env pid s))))
           = take (createsBefore i) [PAYMENT_IN, EXCHANGE_SGD_TO_USDC, EXCHANGE_USDC_TO_USD, PAYOUT]"
    and "map t_amount (drop (length (transactions s)) (transactions (snd (paymentFlowSteps env pid s))))
           = take (createsBefore i)
               [p_amountSgd p, p_amountSgd p * getExchangeRate ''SGD'' ''USDC'',
                p_amountSgd p * getExchangeRate ''SGD'' ''USDC'' * getExchangeRate ''USDC'' ''USD'',
                p_amountSgd p * getExchangeRate ''SGD'' ''USDC'' * getExchangeRate ''USDC'' ''USD'']"
    and "\<exists>q. find (\<lambda>p. p_id p = pid) (payments (snd (paymentFlowSteps env pid s))) = Some q"
proof -
  from i have cases: "i = 12 \<or> i = 13 \<or> i = 14"
    by arith
  note facts = cases row vendor fresh before rejected
  show "\<exists>e. fst (paymentFlowSteps env pid s) = Inl e"
    using facts by (elim disjE) (simp_all add: body_defs io_defs Let_def)
  show "take (length (transactions s)) (transactions (snd (paymentFlowSteps env pid s))) = transactions s"
    using facts by (elim disjE) (simp_all add: body_defs io_defs Let_def)
  show "map t_type (drop (length (transactions s)) (transactions (snd (paymentFlowSteps env pid s))))
           = take (createsBefore i) [PAYMENT_IN, EXCHANGE_SGD_TO_USDC, EXCHANGE_USDC_TO_USD, PAYOUT]"
    using facts by (elim disjE) (simp_all add: body_defs io_defs Let_def createsBefore_def)
  show "map t_amount (drop (length (transactions s)) (transactions (snd (paymentFlowSteps env pid s))))
           = take (createsBefore i)
               [p_amountSgd p, p_amountSgd p * getExchangeRate ''SGD'' ''USDC'',
                p_amountSgd p * getExchangeRate ''SGD'' ''USDC'' * getExchangeRate ''USDC'' ''USD'',
                p_amountSgd p * getExchangeRate ''SGD'' ''USDC'' * getExchangeRate ''USDC'' ''USD'']"
    using facts by (elim disjE) (simp_all add: body_defs io_defs Let_def createsBefore_def)
  show "\<exists>q. find (\<lambda>p. p_id p = pid) (payments (snd (paymentFlowSteps env pid s))) = Some q"
    using facts by (elim disjE) (simp_all add: body_defs io_defs Let_def)
qed

lemma body_payout_unavailable:
  assumes row: "find (\<lambda>p. p_id p = pid) (payments s) = Some p"
    and vendor: "\<not> (\<exists>v b. find (\<lambda>v. v_id v = p_vendorId p) (vendors s) = Some v \<and> v_bankAccount v = Some b)"
    and fresh: "\<forall>t\<in>set (transactions s). t_paymentId t \<noteq> pid"
    and before: "\<forall>j. 1 \<le> j \<and> j < 12 \<longrightarrow> rejects env j = None"
  shows "\<exists>e. fst (paymentFlowSteps env pid s) = Inl e"
    and "take (length (transactions s)) (transactions (snd (paymentFlowSteps env pid s))) = transactions s"
    and "map t_type (drop (length (transactions s)) (transactions (snd (paymentFlowSteps env pid s))))
           = take (createsBefore 12) [PAYMENT_IN, EXCHANGE_SGD_TO_USDC, EXCHANGE_USDC_TO_USD, PAYOUT]"
    and "map t_amount (drop (length (transactions s)) (transactions (snd (paymentFlowSteps env pid s))))
           = take (createsBefore 12)
               [p_amountSgd p, p_amountSgd p * getExchangeRate ''SGD'' ''USDC'',
                p_amountSgd p * getExchangeRate ''SGD'' ''USDC'' * getExchangeRate ''USDC'' ''USD'',
                p_amountSgd p * getExchangeRate ''SGD'' ''USDC'' * getExchangeRate ''USDC'' ''USD'']"
    and "\<exists>q. find (\<lambda>p. p_id p = pid) (payments (snd (paymentFlowSteps env pid s))) = Some q"
proof -
  from vendor have cases: "find (\<lambda>v. v_id v = p_vendorId p) (vendors s) = None
      \<or> (\<exists>v. find (\<lambda>v. v_id v = p_vendorId p) (vendors s) = Some v \<and> v_bankAccount v = None)"
    by (cases "find (\<lambda>v. v_id v = p_vendorId p) (vendors s)") auto
  note facts = cases row fresh before
  show "\<exists>e. fst (paymentFlowSteps env pid s) = Inl e"
    using facts by (elim disjE exE conjE) (simp_all add: body_defs io_defs Let_def)
  show "take (length (transactions s)) (transactions (snd (paymentFlowSteps env pid s))) = transactions s"
    using facts by (elim disjE exE conjE) (simp_all add: body_defs io_defs Let_def)
  show "map t_type (drop (length (transactions s)) (transactions (snd (paymentFlowSteps env pid s))))
           = take (createsBefore 12) [PAYMENT_IN, EXCHANGE_SGD_TO_USDC, EXCHANGE_USDC_TO_USD, PAYOUT]"
    using facts by (elim disjE exE conjE) (simp_all add: body_defs io_defs Let_def createsBefore_def)
  show "map t_amount (drop (length (transactions s)) (transactions (snd (paymentFlowSteps env pid s))))
           = take (createsBefore 12)
               [p_amountSgd p, p_amountSgd p * getExchangeRate ''SGD'' ''USDC'',
                p_amountSgd p * getExchangeRate ''SGD'' ''USDC'' * getExchangeRate ''USDC'' ''USD'',
                p_amountSgd p * getExchangeRate ''SGD'' ''USDC'' * getExchangeRate ''USDC'' ''USD'']"
    using facts by (elim disjE exE conjE) (simp_all add: body_defs io_defs Let_def createsBefore_def)
  show "\<exists>q. find (\<lambda>p. p_id p = pid) (payments (snd (paymentFlowSteps env pid s))) = Some q"
    using facts by (elim disjE exE conjE) (simp_all add: body_defs io_defs Let_def)
qed

lemma body_completes:
  assumes "find (\<lambda>p. p_id p = pid) (payments s) = Some p"
    and "find (\<lambda>v. v_id v = p_vendorId p) (vendors s) = Some v" and "v_bankAccount v = Some b"
    and "\<forall>t\<in>set (transactions s). t_paymentId t \<noteq> pid"
    and "\<forall>j. 1 \<le> j \<and> j \<le> 14 \<longrightarrow> rejects env j = None"
  shows "fst (paymentFlowSteps env pid s) = Inr ()"
    and "take (length (transactions s)) (transactions (snd (paymentFlowSteps env pid s))) = transactions s"
    and "map t_type (drop (length (transactions s)) (transactions (snd (paymentFlowSteps env pid s))))
           = [PAYMENT_IN, EXCHANGE_SGD_TO_USDC, EXCHANGE_USDC_TO_USD, PAYOUT]"
    and "filter (\<lambda>t. t_paymentId t = pid) (transactions (snd (paymentFlowSteps env pid s)))
           = drop (length (transactions s)) (transactions (snd (paymentFlowSteps env pid s)))"
    and "sorted (map t_createdAt (drop (length (transactions s)) (transactions (snd (paymentFlowSteps env pid s)))))"
    and "map_option p_status (find (\<lambda>p. p_id p = pid) (payments (snd (paymentFlowSteps env pid s))))
           = Some COMPLETED"
    and "map_option p_vendorId (find (\<lambda>p. p_id p = pid) (payments (snd (paymentFlowSteps env pid s))))
           = Some (p_vendorId p)"
    and "vendors (snd (paymentFlowSteps env pid s)) = vendors s"
    and "0 < latency env 4 \<and> 0 < latency env 5
         \<longrightarrow> sorted_wrt (<) (map t_createdAt
               (drop (length (transactions s)) (transactions (snd (paymentFlowSteps env pid s)))))"
  using assms
  by (simp_all add: body_defs io_defs Let_def)

lemma body_without_payment:
  assumes "find (\<lambda>p. p_id p = pid) (payments s) = None"
  shows "\<exists>e. fst (paymentFlowSteps env pid s) = Inl e"
  using assms by (cases "rejects env 1") (simp_all add: body_defs io_defs)

lemma body_outcome:
  obtains (rejected) i e0 where "1 \<le> i" "i \<le> 14" "\<forall>j. 1 \<le> j \<and> j < i \<longrightarrow> rejects env j = None"
      "rejects env i = Some e0"
      "i \<le> 11 \<or> (\<exists>v b. find (\<lambda>v. v_id v = p_vendorId p) (vendors s) = Some v \<and> v_bankAccount v = Some b)"
  | (unavailable) "\<forall>j. 1 \<le> j \<and> j < 12 \<longrightarrow> rejects env j = None"
      "\<not> (\<exists>v b. find (\<lambda>v. v_id v = p_vendorId p) (vendors s) = Some v \<and> v_bankAccount v = Some b)"
  | (completes) v b where "\<forall>j. 1 \<le> j \<and> j \<le> 14 \<longrightarrow> rejects env j = None"
      "find (\<lambda>v. v_id v = p_vendorId p) (vendors s) = Some v" "v_bankAccount v = Some b"
proof (cases rule: first_rejected [of 14 env])
  case accepted
  show ?thesis
  proof (cases "\<exists>v b. find (\<lambda>v. v_id v = p_vendorId p) (vendors s) = Some v \<and> v_bankAccount v = Some b")
    case True
    then show ?thesis using completes accepted by blast
  next
    case False
    moreover from accepted have "\<forall>j. 1 \<le> j \<and> j < 12 \<longrightarrow> rejects env j = None" by simp
    ultimately show ?thesis using unavailable by blast
  qed
next
  case (rejected i e0)
  show ?thesis
  proof (cases "i \<le> 11 \<or> (\<exists>v b. find (\<lambda>v. v_id v = p_vendorId p) (vendors s) = Some v \<and> v_bankAccount v = Some b)")
    case True
    then show ?thesis using that(1) [OF rejected] by blast
  next
    case False
    then have "12 \<le> i" by simp
    with rejected(3) have "\<forall>j. 1 \<le> j \<and> j < 12 \<longrightarrow> rejects env j = None" by simp
    with False show ?thesis using unavailable by blast
  qed
qed

text \<open>
  Claim C5, as amended. The payment row exists and has no transaction yet (the flow is
  started right after the row is created), and a step of the flow throws: the body of
  the \<open>try\<close> block ends with an error \<open>e\<close> in the store \<open>sf\<close>, because the store
  rejected one of the fourteen calls of the steps, or because the payout found no bank
  account. Then:

  \<^item> every transaction recorded before the flow is still in place, unchanged, and the
    rows the steps appended are an initial part of the sequence PAYMENT_IN,
    EXCHANGE_SGD_TO_USDC, EXCHANGE_USDC_TO_USD, PAYOUT;

  \<^item> when call \<open>i\<close> is the first rejected one, the appended rows are exactly those of
    the creates that come before call \<open>i\<close>, with the amounts of their steps: no later
    step ran. When no call before the payout's create is rejected and the vendor has no
    bank account, they are the first three;

  \<^item> the \<open>catch\<close> block changes the payment's status and nothing else:
    \<open>processPaymentFlow\<close> throws \<open>e\<close> again, leaving \<open>sf\<close> with the payment FAILED;
    when its own update (call 15) is rejected, it throws that rejection and leaves
    \<open>sf\<close> as it is;

  \<^item> the detached call leaves \<open>sf\<close> with the payment FAILED when the store accepts
    the update of the \<open>catch\<close> block or the one of the \<open>.catch\<close> handler (call 16),
    and \<open>sf\<close> itself when it rejects both; the transactions are those of \<open>sf\<close> in
    either case;

  \<^item> what \<open>initiatePayment\<close> hands to its caller is its own response, whatever the
    flow does.

  The amendment is the condition on FAILED: the store has to accept one of the two
  status updates of the handlers.
\<close>

theorem flow_error_handling:
  assumes row: "find (\<lambda>p. p_id p = pid) (payments s) = Some p"
    and fresh: "\<not> (\<exists>t \<in> set (transactions s). t_paymentId t = pid)"
    and thrown: "paymentFlowSteps env pid s = (Inl e, sf)"
  shows "take (length (transactions s)) (transactions sf) = transactions s
       \<and> (\<exists>c. map t_type (drop (length (transactions s)) (transactions sf))
                 = take c [PAYMENT_IN, EXCHANGE_SGD_TO_USDC, EXCHANGE_USDC_TO_USD, PAYOUT])
       \<and> (1 \<le> i \<and> i \<le> 14 \<and> (\<forall>j. 1 \<le> j \<and> j < i \<longrightarrow> rejects env j = None) \<and> rejects env i \<noteq> None
            \<and> (i \<le> 11 \<or> (\<exists>v b. find (\<lambda>v. v_id v = p_vendorId p) (vendors s) = Some v
                                  \<and> v_bankAccount v = Some b))
          \<longrightarrow> map t_type (drop (length (transactions s)) (transactions sf))
                = take (createsBefore i) [PAYMENT_IN, EXCHANGE_SGD_TO_USDC, EXCHANGE_USDC_TO_USD, PAYOUT]
              \<and> map t_amount (drop (length (transactions s)) (transactions sf))
                = take (createsBefore i)
                    [p_amountSgd p, p_amountSgd p * getExchangeRate ''SGD'' ''USDC'',
                     p_amountSgd p * getExchangeRate ''SGD'' ''USDC'' * getExchangeRate ''USDC'' ''USD'',
                     p_amountSgd p * getExchangeRate ''SGD'' ''USDC'' * getExchangeRate ''USDC'' ''USD''])
       \<and> ((\<forall>j. 1 \<le> j \<and> j < 12 \<longrightarrow> rejects env j = None)
            \<and> \<not> (\<exists>v b. find (\<lambda>v. v_id v = p_vendorId p) (vendors s) = Some v \<and> v_bankAccount v = Some b)
          \<longrightarrow> map t_type (drop (length (transactions s)) (transactions sf))
                = [PAYMENT_IN, EXCHANGE_SGD_TO_USDC, EXCHANGE_USDC_TO_USD])
       \<and> processPaymentFlow env pid s
           = (case rejects env 15 of
                None \<Rightarrow> (Inl e, sf\<lparr>payments := update_where (\<lambda>p. p_id p = pid)
                                               (\<lambda>p. p\<lparr>p_status := FAILED\<rparr>) (payments sf)\<rparr>)
              | Some e' \<Rightarrow> (Inl e', sf))
       \<and> runDetachedFlow env pid s
           = (if rejects env 15 = None \<or> rejects env 16 = None
              then sf\<lparr>payments := update_where (\<lambda>p. p_id p = pid)
                                     (\<lambda>p. p\<lparr>p_status := FAILED\<rparr>) (payments sf)\<rparr>
              else sf)
       \<and> transactions (runDetachedFlow env pid s) = transactions sf
       \<and> (rejects env 15 = None \<or> rejects env 16 = None
          \<longrightarrow> map_option p_status (find (\<lambda>p. p_id p = pid) (payments (runDetachedFlow env pid s)))
                = Some FAILED)
       \<and> fst (initiatePaymentAndFlow env uuid request key s0)
           = map_sum id fst (fst (initiatePayment uuid request key s0))"
proof -
  let ?new = "drop (length (transactions s)) (transactions sf)"
  let ?types = "[PAYMENT_IN, EXCHANGE_SGD_TO_USDC, EXCHANGE_USDC_TO_USD, PAYOUT]"
  have sf: "snd (paymentFlowSteps env pid s) = sf" and e: "fst (paymentFlowSteps env pid s) = Inl e"
    using thrown by simp_all
  from fresh have fresh': "\<forall>t\<in>set (transactions s). t_paymentId t \<noteq> pid" by blast
  have precise: "map t_type ?new = take (createsBefore i) ?types
              \<and> map t_amount ?new
                = take (createsBefore i)
                    [p_amountSgd p, p_amountSgd p * getExchangeRate ''SGD'' ''USDC'',
                     p_amountSgd p * getExchangeRate ''SGD'' ''USDC'' * getExchangeRate ''USDC'' ''USD'',
                     p_amountSgd p * getExchangeRate ''SGD'' ''USDC'' * getExchangeRate ''USDC'' ''USD'']"
    if i: "1 \<le> i" "i \<le> 14" and before: "\<forall>j. 1 \<le> j \<and> j < i \<longrightarrow> rejects env j = None"
      and rejected: "rejects env i \<noteq> None"
      and vendor: "i \<le> 11 \<or> (\<exists>v b. find (\<lambda>v. v_id v = p_vendorId p) (vendors s) = Some v
                                  \<and> v_bankAccount v = Some b)"
    for i
  proof -
    from rejected obtain e0 where e0: "rejects env i = Some e0" by auto
    show ?thesis
    proof (cases "i \<le> 11")
      case True
      from body_rejected(3,4) [OF row fresh' i(1) True before e0] show ?thesis
        unfolding sf by simp
    next
      case False
      with vendor obtain v b where v: "find (\<lambda>v. v_id v = p_vendorId p) (vendors s) = Some v"
        "v_bankAccount v = Some b" by auto
      from False have "12 \<le> i" by simp
      from body_rejected_payout(3,4) [OF row v fresh' this i(2) before e0] show ?thesis
        unfolding sf by simp
    qed
  qed
  have unavailable: "map t_type ?new = [PAYMENT_IN, EXCHANGE_SGD_TO_USDC, EXCHANGE_USDC_TO_USD]"
    if "\<forall>j. 1 \<le> j \<and> j < 12 \<longrightarrow> rejects env j = None"
      "\<not> (\<exists>v b. find (\<lambda>v. v_id v = p_vendorId p) (vendors s) = Some v \<and> v_bankAccount v = Some b)"
    using body_payout_unavailable(3) [OF row that(2) fresh' that(1)]
    unfolding sf by (simp add: createsBefore_def)
  have shape: "take (length (transactions s)) (transactions sf) = transactions s
       \<and> (\<exists>c. map t_type ?new = take c ?types)
       \<and> (\<exists>q. find (\<lambda>p. p_id p = pid) (payments sf) = Some q)"
  proof (cases rule: body_outcome [of env p s])
    case (rejected i e0)
    show ?thesis
    proof (cases "i \<le> 11")
      case True
      from body_rejected(2,3,5) [OF row fresh' rejected(1) True rejected(3,4)] show ?thesis
        unfolding sf by blast
    next
      case False
      with rejected(5) obtain v b where v: "find (\<lambda>v. v_id v = p_vendorId p) (vendors s) = Some v"
        "v_bankAccount v = Some b" by auto
      from False have "12 \<le> i" by simp
      from body_rejected_payout(2,3,5) [OF row v fresh' this rejected(2,3,4)] show ?thesis
        unfolding sf by blast
    qed
  next
    case unavailable
    from body_payout_unavailable(2,3,5) [OF row unavailable(2) fresh' unavailable(1)] show ?thesis
      unfolding sf by blast
  next
    case (completes v b)
    from body_completes(1) [OF row completes(2,3) fresh' completes(1)] e show ?thesis by simp
  qed
  then obtain q where q: "find (\<lambda>p. p_id p = pid) (payments sf) = Some q" by blast
  note handler = flow_thrown [OF thrown q]
  note detached = runDetachedFlow_thrown [OF thrown q]
  have kept: "transactions (runDetachedFlow env pid s) = transactions sf"
    unfolding detached by simp
  have failed: "map_option p_status (find (\<lambda>p. p_id p = pid) (payments (runDetachedFlow env pid s)))
                = Some FAILED"
    if "rejects env 15 = None \<or> rejects env 16 = None"
    unfolding detached using that q by simp
  note caller = initiatePaymentAndFlow_response [of env uuid request key s0]
  from shape precise unavailable handler detached kept failed caller
  show ?thesis by blast
qed

text \<open>
  The sample payment, with the store rejecting the create of the second exchange (call
  9): the flow throws that rejection, the two transactions recorded before it are kept
  with their amounts, the payment ends FAILED, and the caller of \<open>initiatePayment\<close>
  has its response with status PENDING.
\<close>

theorem flow_error_handling_witness:
  "find (\<lambda>p. p_id p = 1) (payments demo_store_created) = Some demo_payment
   \<and> \<not> (\<exists>t \<in> set (transactions demo_store_created). t_paymentId t = 1)
   \<and> fst (paymentFlowSteps demo_env_rejecting 1 demo_store_created)
       = Inl (PrismaClientKnownRequestError ''Server has closed the connection.'')
   \<and> createsBefore 9 = 2
   \<and> map t_type (transactions (runDetachedFlow demo_env_rejecting 1 demo_store_created))
       = [PAYMENT_IN, EXCHANGE_SGD_TO_USDC]
   \<and> map t_amount (transactions (runDetachedFlow demo_env_rejecting 1 demo_store_created)) = [1000, 740]
   \<and> map t_status (transactions (runDetachedFlow demo_env_rejecting 1 demo_store_created))
       = [TX_CONFIRMED, TX_CONFIRMED]
   \<and> map_option p_status
        (find (\<lambda>p. p_id p = 1) (payments (runDetachedFlow demo_env_rejecting 1 demo_store_created)))
       = Some FAILED
   \<and> fst (initiatePaymentAndFlow demo_env_rejecting demo_uuid demo_request (Some demo_key) demo_store)
       = Inr \<lparr> r_paymentId = 1, r_status = PENDING, r_amountSgd = 1000,
               r_estimatedAmountUsd = Some 740, r_expectedSettlementTime = Some 1700001800000,
               r_idempotencyKey = demo_key \<rparr>"
proof -
  let ?sf = "snd (paymentFlowSteps demo_env_rejecting 1 demo_store_created)"
  have row: "find (\<lambda>p. p_id p = 1) (payments demo_store_created) = Some demo_payment"
    by (simp add: demo_defs)
  have fresh: "\<not> (\<exists>t \<in> set (transactions demo_store_created). t_paymentId t = 1)"
    by (simp add: demo_defs)
  have none: "transactions demo_store_created = []"
    by (simp add: demo_defs)
  have err: "fst (paymentFlowSteps demo_env_rejecting 1 demo_store_created)
       = Inl (PrismaClientKnownRequestError ''Server has closed the connection.'')"
    by (simp add: body_defs io_defs demo_defs Let_def)
  have thrown: "paymentFlowSteps demo_env_rejecting 1 demo_store_created
       = (Inl (PrismaClientKnownRequestError ''Server has closed the connection.''), ?sf)"
    using err by (simp add: prod_eq_iff)
  have rejects: "1 \<le> (9::nat)" "(9::nat) \<le> 14"
    "\<forall>j. 1 \<le> j \<and> j < 9 \<longrightarrow> rejects demo_env_rejecting j = None"
    "rejects demo_env_rejecting 9 \<noteq> None" "(9::nat) \<le> 11"
    "rejects demo_env_rejecting 15 = None"
    by (simp_all add: demo_defs)
  have count: "createsBefore 9 = 2"
    by (simp add: createsBefore_def)
  have status: "map t_status (transactions ?sf) = [TX_CONFIRMED, TX_CONFIRMED]"
    by (simp add: body_defs io_defs demo_defs Let_def)
  have found: "\<exists>q. find (\<lambda>p. p_id p = 1) (payments ?sf) = Some q"
    by (simp add: body_defs io_defs demo_defs Let_def)
  then obtain q where q: "find (\<lambda>p. p_id p = 1) (payments ?sf) = Some q" ..
  have sgd: "p_amountSgd demo_payment = 1000"
    by (simp add: demo_defs)
  have first: "fst (initiatePayment demo_uuid demo_request (Some demo_key) demo_store)
       = Inr (\<lparr> r_paymentId = 1, r_status = PENDING, r_amountSgd = 1000,
                 r_estimatedAmountUsd = Some 740, r_expectedSettlementTime = Some 1700001800000,
                 r_idempotencyKey = demo_key \<rparr>, Some 1)"
    by (simp add: initiatePayment_def io_defs demo_defs getExchangeRate_def mockRates_def
          paymentResponse_def Let_def)
  from flow_error_handling [OF row fresh thrown, of 9 demo_uuid demo_request "Some demo_key" demo_store]
       row fresh err rejects count status first q
  show ?thesis
    by (simp add: none sgd getExchangeRate_def mockRates_def)
qed

text \<open>
  The claim as written fails when the store is down: every call of the flow is rejected,
  those of the two handlers included. The step throws, and the payment keeps the status
  PENDING.
\<close>

theorem flow_store_down_counterexample:
  "find (\<lambda>p. p_id p = 1) (payments demo_store_created) = Some demo_payment
   \<and> fst (paymentFlowSteps demo_env_down 1 demo_store_created)
       = Inl (PrismaClientKnownRequestError ''Server has closed the connection.'')
   \<and> fst (processPaymentFlow demo_env_down 1 demo_store_created)
       = Inl (PrismaClientKnownRequestError ''Server has closed the connection.'')
   \<and> map_option p_status
        (find (\<lambda>p. p_id p = 1) (payments (runDetachedFlow demo_env_down 1 demo_store_created)))
       = Some PENDING"
  by (simp add: runDetachedFlow_def flow_defs io_defs demo_defs)

section \<open>A run of the flow to its end\<close>

lemma filter_eq_single:
  "distinct xs \<Longrightarrow> k \<in> set xs \<Longrightarrow> filter (\<lambda>x. k = x) xs = [k]"
  by (induction xs) (auto simp: filter_empty_conv)

lemma sort_key_rearranged:
  assumes strict: "sorted_wrt (<) (map f xs)" and same: "mset ys = mset xs"
  shows "sort_key (f :: 'a \<Rightarrow> nat) ys = xs"
proof (rule properties_for_sort_key)
  show "mset xs = mset ys" using same by simp
  from strict have dk: "distinct (map f xs)" and sorted: "sorted (map f xs)"
    by (simp_all add: strict_sorted_iff)
  show "sorted (map f xs)" by (rule sorted)
  from dk have dx: "distinct xs" and inj: "inj_on f (set xs)"
    by (simp_all add: distinct_map)
  from same have sy: "set ys = set xs" by (rule mset_eq_setD)
  from same dx have dy: "distinct ys" by (metis mset_eq_imp_distinct_iff)
  fix k assume k: "k \<in> set xs"
  have "filter (\<lambda>x. f k = f x) xs = filter (\<lambda>x. k = x) xs"
    using inj k by (intro filter_cong) (auto simp: inj_on_def)
  moreover have "filter (\<lambda>x. f k = f x) ys = filter (\<lambda>x. k = x) ys"
    using inj k sy by (intro filter_cong) (auto simp: inj_on_def)
  ultimately show "filter (\<lambda>x. f k = f x) xs = filter (\<lambda>x. f k = f x) ys"
    using filter_eq_single [OF dx k] filter_eq_single [OF dy] k sy by simp
qed

lemma getPaymentStatus_result:
  assumes "getPaymentStatus scan pid s = (Inr r, s')"
  shows "s' = s"
    and "ps_transactions r
           = map transactionSummary
               (sort_key t_createdAt (scan (filter (\<lambda>t. t_paymentId t = pid) (transactions s))))"
  using assms
  by (auto simp add: getPaymentStatus_def io_defs transactions_orderBy_createdAt_def
        split: option.splits)

lemma summary_fields:
  "ts_createdAt \<circ> transactionSummary = t_createdAt" "ts_type \<circ> transactionSummary = t_type"
  by (rule ext, simp add: transactionSummary_def)+

lemma getPaymentStatus_sorted:
  assumes "getPaymentStatus scan pid s = (Inr r, s')"
  shows "sorted (map ts_createdAt (ps_transactions r))"
  unfolding getPaymentStatus_result(2) [OF assms]
  by (simp add: summary_fields)

lemma getPaymentStatus_contents:
  assumes "getPaymentStatus scan pid s = (Inr r, s')"
    and "mset (scan (filter (\<lambda>t. t_paymentId t = pid) (transactions s)))
           = mset (filter (\<lambda>t. t_paymentId t = pid) (transactions s))"
  shows "mset (ps_transactions r)
           = mset (map transactionSummary (filter (\<lambda>t. t_paymentId t = pid) (transactions s)))"
  unfolding getPaymentStatus_result(2) [OF assms(1)]
  using assms(2) by simp

lemma demo_flow_settles:
  "processPaymentFlow demo_env 1 demo_store_created = (Inr (), demo_store_settled)"
proof -
  have "fst (processPaymentFlow demo_env 1 demo_store_created) = Inr ()"
    by (simp add: flow_defs io_defs demo_defs Let_def)
  then show ?thesis
    by (simp add: prod_eq_iff demo_store_settled_def)
qed

lemma demo_settled_rows:
  "map t_createdAt (transactions demo_store_settled)
     = [1700000000005, 1700000002005, 1700000002005, 1700000002005]"
  "map t_amount (transactions demo_store_settled) = [1000, 740, 740, 740]"
  "map t_fees (transactions demo_store_settled) = [None, Some (74 / 100), Some (74 / 100), Some (148 / 100)]"
  "map_option p_amountUsd (find (\<lambda>p. p_id p = 1) (payments demo_store_settled)) = Some (Some 740)"
  "map_option p_status (find (\<lambda>p. p_id p = 1) (payments demo_store_settled)) = Some COMPLETED"
  "spec_stepFeesUsd 1 demo_store_settled = 74 / 25"
  "map t_type (transactions demo_store_settled)
     = [PAYMENT_IN, EXCHANGE_SGD_TO_USDC, EXCHANGE_USDC_TO_USD, PAYOUT]"
  "map t_paymentId (transactions demo_store_settled) = [1, 1, 1, 1]"
  "map t_feeCurrency (transactions demo_store_settled) = [None, Some ''USDC'', Some ''USD'', Some ''USD'']"
  by (simp_all add: demo_store_settled_def flow_defs io_defs demo_defs Let_def
        getExchangeRate_def mockRates_def spec_stepFeesUsd_def spec_feeInUsd_def)

lemma demo_status_in_scan_order:
  "map_sum id (\<lambda>r. (ps_status r, map ts_type (ps_transactions r)))
       (fst (getPaymentStatus (\<lambda>rows. rows) 1 demo_store_settled))
     = Inr (COMPLETED, [PAYMENT_IN, EXCHANGE_SGD_TO_USDC, EXCHANGE_USDC_TO_USD, PAYOUT])"
  "map_sum id (\<lambda>r. (ps_status r, map ts_type (ps_transactions r)))
       (fst (getPaymentStatus rev 1 demo_store_settled))
     = Inr (COMPLETED, [PAYMENT_IN, PAYOUT, EXCHANGE_USDC_TO_USD, EXCHANGE_SGD_TO_USDC])"
  by (simp_all add: getPaymentStatus_def transactions_orderBy_createdAt_def transactionSummary_def
        demo_store_settled_def flow_defs io_defs demo_defs Let_def)

lemma body_ok_facts:
  assumes fresh: "\<forall>t\<in>set (transactions s). t_paymentId t \<noteq> pid"
    and ok: "fst (paymentFlowSteps env pid s) = Inr ()"
  obtains p v b where "find (\<lambda>p. p_id p = pid) (payments s) = Some p"
    "find (\<lambda>v. v_id v = p_vendorId p) (vendors s) = Some v" "v_bankAccount v = Some b"
    "\<forall>j. 1 \<le> j \<and> j \<le> 14 \<longrightarrow> rejects env j = None"
proof -
  obtain p where row: "find (\<lambda>p. p_id p = pid) (payments s) = Some p"
    using body_without_payment [of pid s env] ok
    by (cases "find (\<lambda>p. p_id p = pid) (payments s)") auto
  show ?thesis
  proof (cases rule: body_outcome [of env p s])
    case (rejected i e0)
    have "\<exists>e. fst (paymentFlowSteps env pid s) = Inl e"
    proof (cases "i \<le> 11")
      case True
      from body_rejected(1) [OF row fresh rejected(1) True rejected(3,4)] show ?thesis .
    next
      case False
      with rejected(5) obtain v b where v: "find (\<lambda>v. v_id v = p_vendorId p) (vendors s) = Some v"
        "v_bankAccount v = Some b" by auto
      from False have "12 \<le> i" by simp
      from body_rejected_payout(1) [OF row v fresh this rejected(2,3,4)] show ?thesis .
    qed
    with ok show ?thesis by simp
  next
    case unavailable
    from body_payout_unavailable(1) [OF row unavailable(2) fresh unavailable(1)] ok
    show ?thesis by simp
  next
    case (completes v b)
    with row that show ?thesis by blast
  qed
qed

text \<open>
  Claim C3. For a payment that has no transaction yet and whose flow runs to its end:
  the rows recorded before are untouched and none is removed; exactly four rows are
  appended, of types PAYMENT_IN, EXCHANGE_SGD_TO_USDC, EXCHANGE_USDC_TO_USD and PAYOUT
  in this order; and they are all the transactions of the payment. Whatever
  \<open>getPaymentStatus\<close> returns, for any payment in any store and any scan order of the
  store, lists transactions in non-decreasing creation time and changes nothing; when
  the scan is a rearrangement of the payment's rows, the list holds exactly the
  payment's transactions, each once. The time that passes between the steps is arbitrary
  and may be zero. When time does pass before the second exchange and before the payout,
  the four creation times are strictly increasing, and then \<open>getPaymentStatus\<close>
  reports status COMPLETED and the four rows in the order of the pipeline, whatever the
  scan order. (Rows created in the same millisecond are listed in the order the store
  chooses.)
\<close>

theorem flow_transactions_ordered:
  assumes fresh: "\<not> (\<exists>t \<in> set (transactions s). t_paymentId t = pid)"
    and flow: "processPaymentFlow env pid s = (Inr (), s')"
  shows "take (length (transactions s)) (transactions s') = transactions s
       \<and> map t_type (drop (length (transactions s)) (transactions s'))
           = [PAYMENT_IN, EXCHANGE_SGD_TO_USDC, EXCHANGE_USDC_TO_USD, PAYOUT]
       \<and> filter (\<lambda>t. t_paymentId t = pid) (transactions s')
           = drop (length (transactions s)) (transactions s')
       \<and> (getPaymentStatus scan0 pid0 s0 = (Inr r0, s0')
            \<longrightarrow> s0' = s0 \<and> sorted (map ts_createdAt (ps_transactions r0)))
       \<and> (getPaymentStatus scan0 pid0 s0 = (Inr r0, s0')
            \<and> mset (scan0 (filter (\<lambda>t. t_paymentId t = pid0) (transactions s0)))
                = mset (filter (\<lambda>t. t_paymentId t = pid0) (transactions s0))
            \<longrightarrow> mset (ps_transactions r0)
                  = mset (map transactionSummary
                            (filter (\<lambda>t. t_paymentId t = pid0) (transactions s0))))
       \<and> (0 < latency env 4 \<and> 0 < latency env 5
            \<longrightarrow> sorted_wrt (<) (map t_createdAt (drop (length (transactions s)) (transactions s'))))
       \<and> (0 < latency env 4 \<and> 0 < latency env 5
            \<and> mset (scan (drop (length (transactions s)) (transactions s')))
                = mset (drop (length (transactions s)) (transactions s'))
            \<longrightarrow> (\<exists>r. getPaymentStatus scan pid s' = (Inr r, s') \<and> ps_status r = COMPLETED
                     \<and> ps_transactions r
                         = map transactionSummary (drop (length (transactions s)) (transactions s'))
                     \<and> map ts_type (ps_transactions r)
                         = [PAYMENT_IN, EXCHANGE_SGD_TO_USDC, EXCHANGE_USDC_TO_USD, PAYOUT]))"
proof -
  let ?new = "drop (length (transactions s)) (transactions s')"
  have body: "paymentFlowSteps env pid s = (Inr (), s')"
    using flow by (simp add: flow_ok_iff)
  then have s': "snd (paymentFlowSteps env pid s) = s'" and ok: "fst (paymentFlowSteps env pid s) = Inr ()"
    by simp_all
  from fresh have fresh': "\<forall>t\<in>set (transactions s). t_paymentId t \<noteq> pid" by blast
  from body_ok_facts [OF fresh' ok]
  obtain p v b where p: "find (\<lambda>p. p_id p = pid) (payments s) = Some p"
    and v: "find (\<lambda>v. v_id v = p_vendorId p) (vendors s) = Some v" and b: "v_bankAccount v = Some b"
    and accepted: "\<forall>j. 1 \<le> j \<and> j \<le> 14 \<longrightarrow> rejects env j = None"
    by blast
  note facts = body_completes [OF p v b fresh' accepted, unfolded s']
  obtain p' where p': "find (\<lambda>p. p_id p = pid) (payments s') = Some p'"
    "p_status p' = COMPLETED" "p_vendorId p' = p_vendorId p"
    using facts(6,7) by auto
  have always: "getPaymentStatus scan0 pid0 s0 = (Inr r0, s0')
            \<longrightarrow> s0' = s0 \<and> sorted (map ts_createdAt (ps_transactions r0))"
    using getPaymentStatus_result(1) getPaymentStatus_sorted by blast
  have contents: "getPaymentStatus scan0 pid0 s0 = (Inr r0, s0')
            \<and> mset (scan0 (filter (\<lambda>t. t_paymentId t = pid0) (transactions s0)))
                = mset (filter (\<lambda>t. t_paymentId t = pid0) (transactions s0))
            \<longrightarrow> mset (ps_transactions r0)
                  = mset (map transactionSummary
                            (filter (\<lambda>t. t_paymentId t = pid0) (transactions s0)))"
    using getPaymentStatus_contents by blast
  have reported: "\<exists>r. getPaymentStatus scan pid s' = (Inr r, s') \<and> ps_status r = COMPLETED
                     \<and> ps_transactions r = map transactionSummary ?new
                     \<and> map ts_type (ps_transactions r)
                         = [PAYMENT_IN, EXCHANGE_SGD_TO_USDC, EXCHANGE_USDC_TO_USD, PAYOUT]"
    if spaced: "0 < latency env 4" "0 < latency env 5" and scan: "mset (scan ?new) = mset ?new"
  proof -
    from facts(9) spaced have strict: "sorted_wrt (<) (map t_createdAt ?new)" by blast
    have ordered: "transactions_orderBy_createdAt scan pid s' = ?new"
      unfolding transactions_orderBy_createdAt_def facts(4)
      by (rule sort_key_rearranged [OF strict scan])
    show ?thesis
      using p' v facts(3,8) ordered
      by (simp add: getPaymentStatus_def io_defs summary_fields)
  qed
  show ?thesis
    apply (intro conjI)
          apply (rule facts(2))
         apply (rule facts(3))
        apply (rule facts(4))
       apply (rule always)
      apply (rule contents)
     apply (rule facts(9))
    apply (use reported in blast)
    done
qed

text \<open>
  The sample run: the exchanges and the payout share one creation time. Scanned in
  insertion order the status lists the four types in the order of the pipeline; scanned
  in reverse it lists the payout before the exchanges, still sorted by creation time and
  still the same four rows. In the run where three milliseconds pass before every step
  the reverse scan makes no difference.
\<close>

theorem flow_transactions_ordered_witness:
  "\<not> (\<exists>t \<in> set (transactions demo_store_created). t_paymentId t = 1)
   \<and> processPaymentFlow demo_env 1 demo_store_created = (Inr (), demo_store_settled)
   \<and> map t_type (transactions demo_store_settled)
       = [PAYMENT_IN, EXCHANGE_SGD_TO_USDC, EXCHANGE_USDC_TO_USD, PAYOUT]
   \<and> map t_createdAt (transactions demo_store_settled)
       = [1700000000005, 1700000002005, 1700000002005, 1700000002005]
   \<and> map_sum id (\<lambda>r. (ps_status r, map ts_type (ps_transactions r)))
         (fst (getPaymentStatus (\<lambda>rows. rows) 1 demo_store_settled))
       = Inr (COMPLETED, [PAYMENT_IN, EXCHANGE_SGD_TO_USDC, EXCHANGE_USDC_TO_USD, PAYOUT])
   \<and> map_sum id (\<lambda>r. (ps_status r, map ts_type (ps_transactions r)))
         (fst (getPaymentStatus rev 1 demo_store_settled))
       = Inr (COMPLETED, [PAYMENT_IN, PAYOUT, EXCHANGE_USDC_TO_USD, EXCHANGE_SGD_TO_USDC])
   \<and> map_sum id (\<lambda>r. sorted (map ts_createdAt (ps_transactions r)))
         (fst (getPaymentStatus rev 1 demo_store_settled)) = Inr True
   \<and> map_sum id (\<lambda>r. map ts_id (ps_transactions r))
         (fst (getPaymentStatus rev 1 demo_store_settled)) = Inr [2, 5, 4, 3]
   \<and> map t_id (transactions demo_store_settled) = [2, 3, 4, 5]
   \<and> fst (processPaymentFlow demo_env_spaced 1 demo_store_created) = Inr ()
   \<and> 0 < latency demo_env_spaced 4 \<and> 0 < latency demo_env_spaced 5
   \<and> map t_createdAt (transactions (snd (processPaymentFlow demo_env_spaced 1 demo_store_created)))
       = [1700000000003, 1700000002009, 1700000002012, 1700000002015]
   \<and> (\<exists>r. getPaymentStatus rev 1 (snd (processPaymentFlow demo_env_spaced 1 demo_store_created))
              = (Inr r, snd (processPaymentFlow demo_env_spaced 1 demo_store_created))
          \<and> ps_status r = COMPLETED
          \<and> ps_transactions r
              = map transactionSummary
                  (transactions (snd (processPaymentFlow demo_env_spaced 1 demo_store_created)))
          \<and> map ts_type (ps_transactions r)
              = [PAYMENT_IN, EXCHANGE_SGD_TO_USDC, EXCHANGE_USDC_TO_USD, PAYOUT])"
proof -
  let ?spaced = "snd (processPaymentFlow demo_env_spaced 1 demo_store_created)"
  have fresh: "\<not> (\<exists>t \<in> set (transactions demo_store_created). t_paymentId t = 1)"
    by (simp add: demo_defs)
  have none: "transactions demo_store_created = []"
    by (simp add: demo_defs)
  have ok: "fst (processPaymentFlow demo_env_spaced 1 demo_store_created) = Inr ()"
    by (simp add: flow_defs io_defs demo_defs Let_def)
  have spaced: "processPaymentFlow demo_env_spaced 1 demo_store_created = (Inr (), ?spaced)"
    using ok by (simp add: prod_eq_iff)
  have passes: "0 < latency demo_env_spaced 4" "0 < latency demo_env_spaced 5"
    by (simp_all add: demo_defs)
  have times: "map t_createdAt (transactions ?spaced)
       = [1700000000003, 1700000002009, 1700000002012, 1700000002015]"
    by (simp add: flow_defs io_defs demo_defs Let_def)
  have "\<exists>r0. getPaymentStatus rev 1 demo_store_settled = (Inr r0, demo_store_settled)
           \<and> ps_status r0 = COMPLETED
           \<and> map ts_type (ps_transactions r0)
               = [PAYMENT_IN, PAYOUT, EXCHANGE_USDC_TO_USD, EXCHANGE_SGD_TO_USDC]
           \<and> map ts_id (ps_transactions r0) = [2, 5, 4, 3]"
    by (simp add: getPaymentStatus_def transactions_orderBy_createdAt_def transactionSummary_def
        demo_store_settled_def flow_defs io_defs demo_defs Let_def)
  then obtain r0 where r0: "getPaymentStatus rev 1 demo_store_settled = (Inr r0, demo_store_settled)
           \<and> ps_status r0 = COMPLETED
           \<and> map ts_type (ps_transactions r0)
               = [PAYMENT_IN, PAYOUT, EXCHANGE_USDC_TO_USD, EXCHANGE_SGD_TO_USDC]
           \<and> map ts_id (ps_transactions r0) = [2, 5, 4, 3]" ..
  have ids: "map t_id (transactions demo_store_settled) = [2, 3, 4, 5]"
    by (simp add: demo_store_settled_def flow_defs io_defs demo_defs Let_def)
  have rearranged: "mset (rev xs) = mset xs" for xs :: "Transaction list"
    by simp
  from flow_transactions_ordered [OF fresh demo_flow_settles, of rev 1 demo_store_settled r0 demo_store_settled rev]
       flow_transactions_ordered [OF fresh spaced, of rev 1 demo_store_settled r0 demo_store_settled rev]
       fresh demo_flow_settles demo_settled_rows(1,7) demo_status_in_scan_order ok passes times r0 rearranged ids
  show ?thesis
    by (simp add: none)
qed

section \<open>The invariant of the store\<close>

lemma keeps_resolve: "keeps (resolve x)"
  by (simp add: keeps_def resolve_def)

lemma keeps_throw: "keeps (throw e)"
  by (simp add: keeps_def throw_def)

lemma keeps_query: "keeps (query f)"
  by (simp add: keeps_def query_def)

lemma keeps_now: "keeps now"
  by (simp add: keeps_def now_def query_def)

lemma consistent_clock [simp]: "consistent (s\<lparr>clock := c\<rparr>) = consistent s"
  by (simp add: consistent_def)

lemma consistent_webhookEvents [simp]: "consistent (s\<lparr>webhookEvents := w\<rparr>) = consistent s"
  by (simp add: consistent_def)

lemma keeps_elapse: "keeps (elapse ms)"
  by (simp add: keeps_def elapse_def)

lemma keeps_setTimeout: "keeps (setTimeout ms)"
  by (simp add: keeps_def setTimeout_def)

lemma keeps_await: "keeps m \<Longrightarrow> (\<And>x. keeps (f x)) \<Longrightarrow> keeps (await m f)"
  by (auto simp: keeps_def await_def split: prod.splits sum.splits)

lemma keeps_catch: "keeps m \<Longrightarrow> (\<And>e. keeps (h e)) \<Longrightarrow> keeps (catch m h)"
  by (auto simp: keeps_def catch_def split: prod.splits sum.splits)

lemma keeps_attempt: "keeps m \<Longrightarrow> keeps (attempt r m)"
  by (cases r) (simp_all add: keeps_throw)

lemma keeps_case_option:
  "keeps a \<Longrightarrow> (\<And>y. keeps (b y)) \<Longrightarrow> keeps (case x of None \<Rightarrow> a | Some y \<Rightarrow> b y)"
  by (cases x) simp_all

lemma keeps_if: "keeps a \<Longrightarrow> keeps b \<Longrightarrow> keeps (if c then a else b)"
  by simp

lemma in_update_where:
  "x \<in> set (update_where P f xs) \<Longrightarrow> \<exists>y \<in> set xs. (P y \<and> x = f y) \<or> (\<not> P y \<and> x = y)"
  by (auto simp: update_where_def)

lemma map_p_id_update_where:
  "(\<And>p. p_id (f p) = p_id p) \<Longrightarrow> map p_id (update_where P f ps) = map p_id ps"
  by (induction ps) auto

lemma consistent_payments_updated:
  assumes "consistent s"
    and "\<And>p. p_id (f p) = p_id p" and "\<And>p. p_amountSgd (f p) = p_amountSgd p"
    and "\<And>p. p \<in> set (payments s) \<Longrightarrow> P p \<Longrightarrow> paymentConsistent (f p)"
  shows "consistent (s\<lparr>payments := update_where P f (payments s)\<rparr>)"
proof -
  have d: "distinct (map p_id (update_where P f (payments s)))"
    using assms(1,2) by (simp add: consistent_def map_p_id_update_where)
  have origin: "\<exists>y \<in> set (payments s). p_id y = p_id p \<and> p_amountSgd y = p_amountSgd p
                  \<and> ((P y \<and> p = f y) \<or> (\<not> P y \<and> p = y))"
    if "p \<in> set (update_where P f (payments s))" for p
    using in_update_where [OF that] assms(2,3) by auto
  have pay: "p_id p < nextId s \<and> paymentConsistent p"
    if "p \<in> set (update_where P f (payments s))" for p
    using origin [OF that] assms(1,4) by (auto simp: consistent_def)
  have tx: "t_paymentId t < nextId s \<and> feeRecorded t
          \<and> (\<forall>p \<in> set (update_where P f (payments s)). p_id p = t_paymentId t \<longrightarrow> amountRecorded p t)"
    if t: "t \<in> set (transactions s)" for t
  proof -
    have "amountRecorded p t" if p: "p \<in> set (update_where P f (payments s))" "p_id p = t_paymentId t" for p
    proof -
      from origin [OF p(1)] obtain y where y: "y \<in> set (payments s)" "p_id y = p_id p"
        "p_amountSgd y = p_amountSgd p" by blast
      with p(2) t assms(1) have "amountRecorded y t" by (simp add: consistent_def)
      with y(3) show ?thesis by (simp add: amountRecorded_def split: TransactionType.splits)
    qed
    with t assms(1) show ?thesis by (simp add: consistent_def)
  qed
  show ?thesis
    unfolding consistent_def using d pay tx by simp
qed

lemma consistent_transactions_updated:
  assumes "consistent s"
    and "\<And>t. t_paymentId (f t) = t_paymentId t" and "\<And>t. t_type (f t) = t_type t"
    and "\<And>t. t_amount (f t) = t_amount t" and "\<And>t. t_fees (f t) = t_fees t"
    and "\<And>t. t_feeCurrency (f t) = t_feeCurrency t"
  shows "consistent (s\<lparr>transactions := update_where P f (transactions s)\<rparr>)"
proof -
  have same: "feeRecorded (f t) = feeRecorded t" "amountRecorded p (f t) = amountRecorded p t" for t p
    using assms(3-6) by (simp_all add: feeRecorded_def amountRecorded_def split: TransactionType.splits)
  have "t_paymentId t < nextId s \<and> feeRecorded t
          \<and> (\<forall>p \<in> set (payments s). p_id p = t_paymentId t \<longrightarrow> amountRecorded p t)"
    if "t \<in> set (update_where P f (transactions s))" for t
  proof -
    from that obtain y where y: "y \<in> set (transactions s)" "t = f y \<or> t = y"
      using in_update_where [of t P f "transactions s"] by auto
    from y(1) assms(1) have "t_paymentId y < nextId s \<and> feeRecorded y
          \<and> (\<forall>p \<in> set (payments s). p_id p = t_paymentId y \<longrightarrow> amountRecorded p y)"
      by (simp add: consistent_def)
    with y(2) show ?thesis
      using same assms(2) by auto
  qed
  with assms(1) show ?thesis
    by (simp add: consistent_def)
qed

lemma consistent_nextId:
  "consistent s \<Longrightarrow> consistent (s\<lparr>nextId := Suc (nextId s)\<rparr>)"
  by (auto simp: consistent_def less_Suc_eq)

lemma found_unique:
  assumes "distinct (map p_id ps)" "find (\<lambda>p. p_id p = pid) ps = Some p" "q \<in> set ps" "p_id q = pid"
  shows "q = p"
proof -
  from assms(2) have "p \<in> set ps" "p_id p = pid" by (auto simp: find_Some_iff)
  with assms(1,3,4) show ?thesis by (auto simp: distinct_map inj_on_def)
qed

lemma consistent_transaction_appended:
  assumes "consistent s" and "find (\<lambda>p. p_id p = pid) (payments s) = Some p"
    and "t_paymentId t = pid" and "feeRecorded t" and "amountRecorded p t"
  shows "consistent (s\<lparr>transactions := transactions s @ [t], nextId := Suc (nextId s)\<rparr>)"
proof -
  from assms(2) have p: "p \<in> set (payments s)" "p_id p = pid" by (auto simp: find_Some_iff)
  have only: "q = p" if "q \<in> set (payments s)" "p_id q = pid" for q
    using found_unique [OF _ assms(2) that] assms(1) by (simp add: consistent_def)
  have new: "t_paymentId t < Suc (nextId s)"
    using assms(1,3) p by (auto simp: consistent_def less_Suc_eq)
  have amount: "\<forall>q \<in> set (payments s). p_id q = t_paymentId t \<longrightarrow> amountRecorded q t"
    using only assms(3,5) by auto
  have old: "t_paymentId u < Suc (nextId s) \<and> feeRecorded u
          \<and> (\<forall>q \<in> set (payments s). p_id q = t_paymentId u \<longrightarrow> amountRecorded q u)"
    if "u \<in> set (transactions s)" for u
    using that assms(1) by (auto simp: consistent_def less_Suc_eq)
  have pay: "\<forall>q \<in> set (payments s). p_id q < Suc (nextId s) \<and> paymentConsistent q"
    using assms(1) by (auto simp: consistent_def less_Suc_eq)
  have d: "distinct (map p_id (payments s))"
    using assms(1) by (simp add: consistent_def)
  show ?thesis
    unfolding consistent_def using d pay old new amount assms(4) by simp
qed

lemma consistent_payment_appended:
  assumes "consistent s" and "p_id p = nextId s" and "paymentConsistent p"
  shows "consistent (s\<lparr>payments := payments s @ [p], nextId := Suc (nextId s)\<rparr>)"
proof -
  have d: "distinct (map p_id (payments s @ [p]))"
    using assms(1,2) by (auto simp: consistent_def)
  have pay: "\<forall>q \<in> set (payments s @ [p]). p_id q < Suc (nextId s) \<and> paymentConsistent q"
    using assms by (auto simp: consistent_def less_Suc_eq)
  have old: "t_paymentId u < Suc (nextId s) \<and> feeRecorded u
          \<and> (\<forall>q \<in> set (payments s @ [p]). p_id q = t_paymentId u \<longrightarrow> amountRecorded q u)"
    if "u \<in> set (transactions s)" for u
    using that assms(1,2) by (auto simp: consistent_def less_Suc_eq)
  show ?thesis
    unfolding consistent_def using d pay old by simp
qed

lemma keeps_payment_update:
  assumes "\<And>p. p_id (f p) = p_id p" and "\<And>p. p_amountSgd (f p) = p_amountSgd p"
    and "\<And>p. p_amountUsd (f p) = p_amountUsd p"
  shows "keeps (payment_update pid f)"
proof -
  have same: "paymentConsistent (f p) = paymentConsistent p" for p
    using assms(2,3) by (simp add: paymentConsistent_def)
  have "consistent (snd (payment_update pid f s))" if s: "consistent s" for s
  proof (cases "find (\<lambda>p. p_id p = pid) (payments s)")
    case None
    then show ?thesis using s by (simp add: payment_update_def)
  next
    case (Some a)
    have "consistent (s\<lparr>payments := update_where (\<lambda>p. p_id p = pid) f (payments s)\<rparr>)"
    proof (rule consistent_payments_updated [OF s assms(1,2)])
      fix p assume "p \<in> set (payments s)"
      with s have "paymentConsistent p" by (simp add: consistent_def)
      then show "paymentConsistent (f p)" by (simp add: same)
    qed
    with Some show ?thesis by (simp add: payment_update_def)
  qed
  then show ?thesis by (simp add: keeps_def)
qed

lemma keeps_updatePaymentStatus: "keeps (updatePaymentStatus pid st)"
  unfolding updatePaymentStatus_def by (rule keeps_payment_update) simp_all

lemma keeps_transaction_updateMany:
  assumes "\<And>t. t_paymentId (f t) = t_paymentId t" and "\<And>t. t_type (f t) = t_type t"
    and "\<And>t. t_amount (f t) = t_amount t" and "\<And>t. t_fees (f t) = t_fees t"
    and "\<And>t. t_feeCurrency (f t) = t_feeCurrency t"
  shows "keeps (transaction_updateMany P f)"
  unfolding keeps_def transaction_updateMany_def
  using consistent_transactions_updated [where f = f and P = P, OF _ assms] by simp

lemma keeps_transaction_update:
  assumes "\<And>t. t_paymentId (f t) = t_paymentId t" and "\<And>t. t_type (f t) = t_type t"
    and "\<And>t. t_amount (f t) = t_amount t" and "\<And>t. t_fees (f t) = t_fees t"
    and "\<And>t. t_feeCurrency (f t) = t_feeCurrency t"
  shows "keeps (transaction_update tid f)"
  unfolding keeps_def transaction_update_def
  using consistent_transactions_updated [where f = f and P = "\<lambda>t. t_id t = tid", OF _ assms]
  by (simp split: option.splits)

lemma keeps_webhookEvent_update: "keeps (webhookEvent_update wid f)"
  by (simp add: keeps_def webhookEvent_update_def split: option.splits)

lemma consistent_webhookEvent_appended:
  "consistent s \<Longrightarrow> consistent (s\<lparr>webhookEvents := w, nextId := Suc (nextId s)\<rparr>)"
  unfolding consistent_def by (simp add: less_Suc_eq)

lemma keeps_webhookEvent_upsert: "keeps (webhookEvent_upsert eventId eventType payload)"
  by (simp add: keeps_def webhookEvent_upsert_def Let_def consistent_webhookEvent_appended
        split: option.splits)

lemma keeps_webhookEvent_findFirst: "keeps (webhookEvent_findFirst P)"
  by (simp add: webhookEvent_findFirst_def keeps_query)

lemma keeps_payment_findFirst: "keeps (payment_findFirst P)"
  by (simp add: payment_findFirst_def keeps_query)

lemma keeps_transaction_findFirst: "keeps (transaction_findFirst P)"
  by (simp add: transaction_findFirst_def keeps_query)

lemma keeps_vendor_findFirst: "keeps (vendor_findFirst P)"
  by (simp add: vendor_findFirst_def keeps_query)

lemma setHash_fields [simp]:
  "t_paymentId (setHash h t) = t_paymentId t" "t_type (setHash h t) = t_type t"
  "t_amount (setHash h t) = t_amount t" "t_fees (setHash h t) = t_fees t"
  "t_feeCurrency (setHash h t) = t_feeCurrency t"
  by (simp_all add: setHash_def split: option.splits)

lemmas keeps_intros = keeps_resolve keeps_throw keeps_query keeps_now keeps_elapse keeps_setTimeout
  keeps_await keeps_catch keeps_attempt keeps_case_option keeps_if
  keeps_updatePaymentStatus keeps_webhookEvent_update keeps_webhookEvent_upsert
  keeps_webhookEvent_findFirst keeps_payment_findFirst keeps_transaction_findFirst
  keeps_vendor_findFirst

lemma keeps_handlers:
  "keeps (handlePaymentIntentSucceeded eventData wid)"
  "keeps (handlePaymentIntentFailed eventData wid)"
  "keeps (handleTransferCompleted eventData wid)"
  "keeps (handleTransferFailed eventData wid)"
  "keeps (handlePayoutCompleted eventData wid)"
  "keeps (handlePayoutFailed eventData wid)"
  unfolding handlePaymentIntentSucceeded_def handlePaymentIntentFailed_def
    handleTransferCompleted_def handleTransferFailed_def handlePayoutCompleted_def
    handlePayoutFailed_def Let_def
  by (intro keeps_intros keeps_transaction_updateMany keeps_transaction_update keeps_payment_update; simp)+

lemma keeps_processWebhookEvent: "keeps (processWebhookEvent eventType eventData wid)"
  unfolding processWebhookEvent_def
  by (intro keeps_intros keeps_handlers)

lemma keeps_signatureRejected: "keeps (signatureRejected hmac secret req)"
  unfolding signatureRejected_def
  by (simp add: keeps_resolve keeps_throw split: option.splits sum.splits)

lemma keepsD: "keeps m \<Longrightarrow> consistent s \<Longrightarrow> consistent (snd (m s))"
  by (simp add: keeps_def)

lemma snd_case_reply:
  "snd (case x of (Inr reply, s') \<Rightarrow> (reply, s') | (Inl e, s') \<Rightarrow> (r0 e, s')) = snd x"
  by (auto split: prod.splits sum.splits)

lemma consistent_webhooks_post_circle:
  assumes "consistent s"
  shows "consistent (snd (webhooks_post_circle hmac secret req s))"
  unfolding webhooks_post_circle_def snd_case_reply
  by (rule keepsD [OF _ assms]) (intro keeps_intros keeps_signatureRejected keeps_processWebhookEvent)

lemma keeps_payment_create:
  assumes "usd = sgd * getExchangeRate ''SGD'' ''USDC'' * getExchangeRate ''USDC'' ''USD''"
  shows "keeps (payment_create key vendor sgd usd rate st cref descr expected)"
  unfolding keeps_def payment_create_def Let_def
  using assms by (auto intro!: consistent_payment_appended simp: paymentConsistent_def)

lemma keeps_initiatePayment: "keeps (initiatePayment uuid request provided)"
  unfolding initiatePayment_def Let_def
  by (intro keeps_intros keeps_payment_create) simp

lemma consistent_transaction_create:
  assumes "consistent s" and "find (\<lambda>p. p_id p = pid) (payments s) = Some p"
    and "(fees, feeCur)
           = (case ty of
                PAYMENT_IN \<Rightarrow> (None, None)
              | EXCHANGE_SGD_TO_USDC \<Rightarrow> (Some (amt * (1 / 1000)), Some ''USDC'')
              | EXCHANGE_USDC_TO_USD \<Rightarrow> (Some (amt * (1 / 1000)), Some ''USD'')
              | PAYOUT \<Rightarrow> (Some (amt * (2 / 1000)), Some ''USD''))"
    and "amt = (case ty of
                  PAYMENT_IN \<Rightarrow> p_amountSgd p
                | EXCHANGE_SGD_TO_USDC \<Rightarrow> p_amountSgd p * getExchangeRate ''SGD'' ''USDC''
                | EXCHANGE_USDC_TO_USD \<Rightarrow>
                    p_amountSgd p * getExchangeRate ''SGD'' ''USDC'' * getExchangeRate ''USDC'' ''USD''
                | PAYOUT \<Rightarrow>
                    p_amountSgd p * getExchangeRate ''SGD'' ''USDC'' * getExchangeRate ''USDC'' ''USD'')"
  shows "consistent (snd (transaction_create pid ty st amt cur cid fees feeCur s))"
  unfolding transaction_create_def Let_def snd_conv
  by (rule consistent_transaction_appended [OF assms(1,2)])
     (use assms(3,4) in \<open>simp_all add: feeRecorded_def amountRecorded_def split: TransactionType.splits\<close>)

lemma consistent_payment_update:
  assumes "consistent s"
    and "\<And>p. p_id (f p) = p_id p" and "\<And>p. p_amountSgd (f p) = p_amountSgd p"
    and "\<And>q. q \<in> set (payments s) \<Longrightarrow> p_id q = pid \<Longrightarrow> paymentConsistent (f q)"
  shows "consistent (snd (payment_update pid f s))"
proof (cases "find (\<lambda>p. p_id p = pid) (payments s)")
  case None
  then show ?thesis using assms(1) by (simp add: payment_update_def)
next
  case (Some a)
  have "consistent (s\<lparr>payments := update_where (\<lambda>p. p_id p = pid) f (payments s)\<rparr>)"
    by (rule consistent_payments_updated [OF assms(1-3)]) (rule assms(4))
  with Some show ?thesis by (simp add: payment_update_def)
qed

lemma consistent_await:
  assumes "consistent (snd (m s))"
    and "\<And>x. fst (m s) = Inr x \<Longrightarrow> consistent (snd (f x (snd (m s))))"
  shows "consistent (snd (await m f s))"
  using assms by (cases "m s") (auto simp: await_def split: sum.splits)

lemma consistent_attempt:
  assumes "consistent s" and "consistent (snd (m s))"
  shows "consistent (snd (attempt r m s))"
  using assms by (cases r) (simp_all add: throw_def)

lemma attempt_Inr: "fst (attempt r m s) = Inr x \<Longrightarrow> attempt r m s = m s"
  by (cases r) (simp_all add: throw_def)

lemma case_transaction_create [simp]:
  "(case transaction_create pid ty st amt cur cid fees fc s of
      (Inl e, s') \<Rightarrow> A e s' | (Inr x, s') \<Rightarrow> B x s')
     = B () (snd (transaction_create pid ty st amt cur cid fees fc s))"
  by (simp add: transaction_create_def Let_def)

lemma payments_transaction_create [simp]:
  "payments (snd (transaction_create pid ty st amt cur cid fees fc s)) = payments s"
  by (simp add: transaction_create_def Let_def)

lemma found_in:
  "find (\<lambda>p. p_id p = pid) ps = Some p \<Longrightarrow> p \<in> set ps \<and> p_id p = pid"
  by (auto simp: find_Some_iff)

lemma first_of_filter:
  "filter P xs = x # rest \<Longrightarrow> x \<in> set xs \<and> P x"
  by (metis filter_eq_ConsD in_set_conv_decomp)

lemma keeps_simulatePaymentConfirmation: "keeps (simulatePaymentConfirmation env pid cid)"
  unfolding simulatePaymentConfirmation_def
  by (intro keeps_intros keeps_transaction_updateMany) simp_all

lemma keeps_exchangeSgdToUsdc: "keeps (exchangeSgdToUsdc env pid)"
  unfolding keeps_def
proof (intro allI impI)
  fix s assume c: "consistent s"
  show "consistent (snd (exchangeSgdToUsdc env pid s))"
  proof (cases "rejects env 6")
    case (Some e)
    with c show ?thesis by (simp add: exchangeSgdToUsdc_def await_def throw_def)
  next
    case r6: None
    show ?thesis
    proof (cases "find (\<lambda>p. p_id p = pid) (payments s)")
      case None
      with c r6 show ?thesis
        by (simp add: exchangeSgdToUsdc_def await_def throw_def query_def payment_findFirst_def)
    next
      case (Some payment)
      have "consistent (snd (transaction_create pid EXCHANGE_SGD_TO_USDC TX_CONFIRMED
               (p_amountSgd payment * getExchangeRate ''SGD'' ''USDC'') ''USDC'' cid
               (Some (p_amountSgd payment * getExchangeRate ''SGD'' ''USDC'' * (1 / 1000))) (Some ''USDC'') s))" for cid
        by (rule consistent_transaction_create [OF c Some]) simp_all
      then show ?thesis using c r6 Some
        by (cases "rejects env 7")
           (simp_all add: exchangeSgdToUsdc_def await_def throw_def query_def now_def
              payment_findFirst_def Let_def)
    qed
  qed
qed

lemma keeps_exchangeUsdcToUsd: "keeps (exchangeUsdcToUsd env pid)"
  unfolding keeps_def
proof (intro allI impI)
  fix s assume c: "consistent s"
  let ?r1 = "getExchangeRate ''SGD'' ''USDC''" and ?r2 = "getExchangeRate ''USDC'' ''USD''"
  show "consistent (snd (exchangeUsdcToUsd env pid s))"
  proof (cases "rejects env 8")
    case (Some e)
    with c show ?thesis by (simp add: exchangeUsdcToUsd_def await_def throw_def)
  next
    case r8: None
    show ?thesis
    proof (cases "find (\<lambda>p. p_id p = pid) (payments s)")
      case None
      with c r8 show ?thesis
        by (simp add: exchangeUsdcToUsd_def await_def throw_def query_def payment_findFirst_def)
    next
      case (Some payment)
      note p = found_in [OF Some]
      show ?thesis
      proof (cases "filter (\<lambda>t. t_paymentId t = pid \<and> t_type t = EXCHANGE_SGD_TO_USDC) (transactions s)")
        case Nil
        with c r8 Some show ?thesis
          by (simp add: exchangeUsdcToUsd_def await_def throw_def query_def payment_findFirst_def)
      next
        case (Cons usdcTransaction rest)
        from first_of_filter [OF Cons]
        have u: "usdcTransaction \<in> set (transactions s)" "t_paymentId usdcTransaction = pid"
          "t_type usdcTransaction = EXCHANGE_SGD_TO_USDC" by simp_all
        have amount: "t_amount usdcTransaction = p_amountSgd payment * ?r1"
          using c u p by (auto simp: consistent_def amountRecorded_def)
        have c1: "consistent (snd (transaction_create pid EXCHANGE_USDC_TO_USD TX_CONFIRMED
               (t_amount usdcTransaction * ?r2) ''USD'' cid
               (Some (t_amount usdcTransaction * ?r2 * (1 / 1000))) (Some ''USD'') s))" for cid
          by (rule consistent_transaction_create [OF c Some]) (simp_all add: amount)
        have c2: "consistent (snd (payment_update pid (\<lambda>p. p\<lparr>p_amountUsd := Some (t_amount usdcTransaction * ?r2)\<rparr>)
               (snd (transaction_create pid EXCHANGE_USDC_TO_USD TX_CONFIRMED
               (t_amount usdcTransaction * ?r2) ''USD'' cid
               (Some (t_amount usdcTransaction * ?r2 * (1 / 1000))) (Some ''USD'') s))))" for cid
        proof (rule consistent_payment_update [OF c1])
          fix q assume "q \<in> set (payments (snd (transaction_create pid EXCHANGE_USDC_TO_USD TX_CONFIRMED
               (t_amount usdcTransaction * ?r2) ''USD'' cid
               (Some (t_amount usdcTransaction * ?r2 * (1 / 1000))) (Some ''USD'') s)))" and "p_id q = pid"
          then have "q = payment"
            using found_unique [OF _ Some, of q] c by (simp add: consistent_def)
          then show "paymentConsistent (q\<lparr>p_amountUsd := Some (t_amount usdcTransaction * ?r2)\<rparr>)"
            by (simp add: paymentConsistent_def amount)
        qed simp_all
        show ?thesis using c c1 c2 r8 Some Cons
          by (cases "rejects env 9"; cases "rejects env 10")
             (simp_all add: exchangeUsdcToUsd_def await_def throw_def query_def now_def
                payment_findFirst_def Let_def)
      qed
    qed
  qed
qed

lemma snd_case_result:
  "snd (case x of (Inl e, s') \<Rightarrow> (a e, s') | (Inr y, s') \<Rightarrow> (b y, s')) = snd x"
  by (auto split: prod.splits sum.splits)

lemma keeps_payoutToVendor: "keeps (payoutToVendor env pid)"
  unfolding keeps_def
proof (intro allI impI)
  fix s assume c: "consistent s"
  let ?r1 = "getExchangeRate ''SGD'' ''USDC''" and ?r2 = "getExchangeRate ''USDC'' ''USD''"
  show "consistent (snd (payoutToVendor env pid s))"
  proof (cases "rejects env 11")
    case (Some e)
    with c show ?thesis by (simp add: payoutToVendor_def await_def throw_def)
  next
    case r11: None
    show ?thesis
    proof (cases "find (\<lambda>p. p_id p = pid) (payments s)")
      case None
      with c r11 show ?thesis
        by (simp add: payoutToVendor_def await_def throw_def query_def payment_findFirst_def)
    next
      case (Some payment)
      note p = found_in [OF Some]
      show ?thesis
      proof (cases "filter (\<lambda>t. t_paymentId t = pid \<and> t_type t = EXCHANGE_USDC_TO_USD) (transactions s)")
        case Nil
        with c r11 Some show ?thesis
          by (simp add: payoutToVendor_def await_def throw_def query_def payment_findFirst_def
                vendor_findFirst_def split: option.splits)
      next
        case (Cons usdTransaction rest)
        from first_of_filter [OF Cons]
        have u: "usdTransaction \<in> set (transactions s)" "t_paymentId usdTransaction = pid"
          "t_type usdTransaction = EXCHANGE_USDC_TO_USD" by simp_all
        have amount: "t_amount usdTransaction = p_amountSgd payment * ?r1 * ?r2"
          using c u p by (auto simp: consistent_def amountRecorded_def)
        have c1: "consistent (snd (transaction_create pid PAYOUT TX_CONFIRMED
               (t_amount usdTransaction) ''USD'' cid
               (Some (t_amount usdTransaction * (2 / 1000))) (Some ''USD'') s))" for cid
          by (rule consistent_transaction_create [OF c Some]) (simp_all add: amount)
        have c2: "consistent (snd (payment_update pid (\<lambda>p. p\<lparr>p_actualSettlementTime := Some t'\<rparr>)
               (snd (transaction_create pid PAYOUT TX_CONFIRMED
               (t_amount usdTransaction) ''USD'' cid
               (Some (t_amount usdTransaction * (2 / 1000))) (Some ''USD'') s))))" for cid t'
          by (rule keepsD [OF keeps_payment_update c1]) simp_all
        have clock: "clock (snd (transaction_create a b d e f g h i s)) = clock s" for a b d e f g h i
          by (simp add: transaction_create_def Let_def)
        show ?thesis using c c1 c2 r11 Some Cons
          by (cases "rejects env 12"; cases "rejects env 13")
             (simp_all add: payoutToVendor_def await_def catch_def throw_def query_def now_def
                payment_findFirst_def vendor_findFirst_def Let_def clock snd_case_result
                split: option.splits)
      qed
    qed
  qed
qed

lemma keeps_createCirclePaymentIntent: "keeps (createCirclePaymentIntent env pid)"
  unfolding keeps_def
proof (intro allI impI)
  fix s assume c: "consistent s"
  show "consistent (snd (createCirclePaymentIntent env pid s))"
  proof (cases "rejects env 2")
    case (Some e)
    with c show ?thesis by (simp add: createCirclePaymentIntent_def await_def throw_def)
  next
    case r2: None
    show ?thesis
    proof (cases "find (\<lambda>p. p_id p = pid) (payments s)")
      case None
      with c r2 show ?thesis
        by (simp add: createCirclePaymentIntent_def await_def throw_def query_def payment_findFirst_def)
    next
      case (Some payment)
      let ?s1 = "\<lambda>cid. s\<lparr>payments := update_where (\<lambda>p. p_id p = pid)
                                     (\<lambda>p. p\<lparr>p_circlePaymentId := Some cid\<rparr>) (payments s)\<rparr>"
      have c1: "consistent (?s1 cid)" for cid
        using keepsD [OF keeps_payment_update c, of "\<lambda>p. p\<lparr>p_circlePaymentId := Some cid\<rparr>" pid] Some
        by (simp add: payment_update_def)
      have found: "find (\<lambda>p. p_id p = pid) (payments (?s1 cid))
                     = Some (payment\<lparr>p_circlePaymentId := Some cid\<rparr>)" for cid
        using Some by simp
      have c2: "consistent (snd (transaction_create pid PAYMENT_IN TX_PENDING (p_amountSgd payment)
                  ''SGD'' cid None None (?s1 cid)))" for cid
        by (rule consistent_transaction_create [OF c1 found]) simp_all
      show ?thesis using c c1 c2 r2 Some
        by (cases "rejects env 3"; cases "rejects env 4")
           (simp_all add: createCirclePaymentIntent_def await_def catch_def throw_def query_def
              now_def resolve_def payment_findFirst_def payment_update_def Let_def)
    qed
  qed
qed

lemmas keeps_steps = keeps_createCirclePaymentIntent keeps_simulatePaymentConfirmation
  keeps_exchangeSgdToUsdc keeps_exchangeUsdcToUsd keeps_payoutToVendor

lemma keeps_processPaymentFlow: "keeps (processPaymentFlow env pid)"
  unfolding processPaymentFlow_def paymentFlowSteps_def
  by (intro keeps_intros keeps_steps)

lemma consistent_runDetachedFlow:
  assumes "consistent s"
  shows "consistent (runDetachedFlow env pid s)"
proof (cases "processPaymentFlow env pid s")
  case (Pair r s')
  have c': "consistent s'"
    using keepsD [OF keeps_processPaymentFlow assms, of env pid] Pair by simp
  show ?thesis
  proof (cases r)
    case (Inl e)
    with Pair c' show ?thesis
      using keepsD [OF keeps_attempt [OF keeps_updatePaymentStatus], of s' "rejects env 16" pid FAILED]
      by (simp add: runDetachedFlow_def)
  next
    case (Inr u)
    with Pair c' show ?thesis by (simp add: runDetachedFlow_def)
  qed
qed

lemma reachable_consistent: "reachable s \<Longrightarrow> consistent s"
proof (induction rule: reachable.induct)
  case (reachable_start s)
  then show ?case by (simp add: consistent_def)
next
  case (reachable_initiate s uuid request providedIdempotencyKey)
  then show ?case by (simp add: keepsD [OF keeps_initiatePayment])
next
  case (reachable_flow s env paymentId)
  then show ?case by (simp add: consistent_runDetachedFlow)
next
  case (reachable_webhook s hmacSha256Hex webhookSecret req)
  then show ?case by (simp add: consistent_webhooks_post_circle)
next
  case (reachable_time s ms)
  then show ?case by (simp add: keepsD [OF keeps_elapse])
next
  case (reachable_status s rejection paymentId status)
  then show ?case by (simp add: keepsD [OF keeps_attempt [OF keeps_updatePaymentStatus]])
next
  case (reachable_intent s env paymentId)
  then show ?case by (simp add: keepsD [OF keeps_createCirclePaymentIntent])
next
  case (reachable_confirmation s env paymentId circlePaymentId)
  then show ?case by (simp add: keepsD [OF keeps_simulatePaymentConfirmation])
next
  case (reachable_exchange1 s env paymentId)
  then show ?case by (simp add: keepsD [OF keeps_exchangeSgdToUsdc])
next
  case (reachable_exchange2 s env paymentId)
  then show ?case by (simp add: keepsD [OF keeps_exchangeUsdcToUsd])
next
  case (reachable_payout s env paymentId)
  then show ?case by (simp add: keepsD [OF keeps_payoutToVendor])
qed

text \<open>
  Claim C2, as amended. In every store the service reaches, a payment that is COMPLETED
  (however it got there: by the flow or by a \<open>payout.completed\<close> delivery) carries as
  its destination amount the source amount times the SGD to USDC rate times the USDC to
  USD rate, with nothing subtracted. The fees are recorded on the payment's
  transactions: each transaction carries the amount of its step and, as its fee, 0.1%
  of that amount for an exchange (in the currency of the exchanged amount) and 0.2% for
  the payout; the payment-intent transaction carries no fee. Amounts are exact
  rationals here, so the equalities hold without a tolerance.
\<close>

theorem completed_amount_is_gross:
  assumes "reachable s" and "p \<in> set (payments s)" and "p_status p = COMPLETED"
  shows "p_amountUsd p
           = Some (p_amountSgd p * getExchangeRate ''SGD'' ''USDC'' * getExchangeRate ''USDC'' ''USD'')
       \<and> (\<forall>t \<in> set (transactions s). t_paymentId t = p_id p \<longrightarrow>
            t_amount t
              = (case t_type t of
                   PAYMENT_IN \<Rightarrow> p_amountSgd p
                 | EXCHANGE_SGD_TO_USDC \<Rightarrow> p_amountSgd p * getExchangeRate ''SGD'' ''USDC''
                 | EXCHANGE_USDC_TO_USD \<Rightarrow>
                     p_amountSgd p * getExchangeRate ''SGD'' ''USDC'' * getExchangeRate ''USDC'' ''USD''
                 | PAYOUT \<Rightarrow>
                     p_amountSgd p * getExchangeRate ''SGD'' ''USDC'' * getExchangeRate ''USDC'' ''USD'')
            \<and> (t_fees t, t_feeCurrency t)
              = (case t_type t of
                   PAYMENT_IN \<Rightarrow> (None, None)
                 | EXCHANGE_SGD_TO_USDC \<Rightarrow> (Some (t_amount t * (1 / 1000)), Some ''USDC'')
                 | EXCHANGE_USDC_TO_USD \<Rightarrow> (Some (t_amount t * (1 / 1000)), Some ''USD'')
                 | PAYOUT \<Rightarrow> (Some (t_amount t * (2 / 1000)), Some ''USD'')))"
  using reachable_consistent [OF assms(1)] assms(2)
  by (auto simp: consistent_def paymentConsistent_def feeRecorded_def amountRecorded_def)

text \<open>
  The sample run is reached from the empty store by one call of \<open>initiatePayment\<close>
  and its flow: 1000 SGD settle as 740 USD, and the fees 0.74 USDC, 0.74 USD and 1.48
  USD are on the transactions.
\<close>

theorem completed_amount_is_gross_witness:
  "reachable demo_store_settled
   \<and> payments demo_store_settled \<noteq> []
   \<and> hd (payments demo_store_settled) \<in> set (payments demo_store_settled)
   \<and> p_id (hd (payments demo_store_settled)) = 1
   \<and> p_status (hd (payments demo_store_settled)) = COMPLETED
   \<and> p_amountSgd (hd (payments demo_store_settled)) = 1000
   \<and> p_amountUsd (hd (payments demo_store_settled)) = Some 740
   \<and> map t_paymentId (transactions demo_store_settled) = [1, 1, 1, 1]
   \<and> map t_type (transactions demo_store_settled)
       = [PAYMENT_IN, EXCHANGE_SGD_TO_USDC, EXCHANGE_USDC_TO_USD, PAYOUT]
   \<and> map t_amount (transactions demo_store_settled) = [1000, 740, 740, 740]
   \<and> map t_fees (transactions demo_store_settled)
       = [None, Some (74 / 100), Some (74 / 100), Some (148 / 100)]
   \<and> map t_feeCurrency (transactions demo_store_settled)
       = [None, Some ''USDC'', Some ''USD'', Some ''USD'']"
proof -
  have start: "reachable demo_store"
    by (rule reachable_start) (simp_all add: demo_defs)
  have created: "snd (initiatePayment demo_uuid demo_request (Some demo_key) demo_store) = demo_store_created"
    by (simp add: initiatePayment_def io_defs demo_defs getExchangeRate_def mockRates_def
          paymentResponse_def Let_def)
  have settled: "runDetachedFlow demo_env 1 demo_store_created = demo_store_settled"
    using demo_flow_settles by (simp add: runDetachedFlow_def)
  have "reachable (runDetachedFlow demo_env 1
                     (snd (initiatePayment demo_uuid demo_request (Some demo_key) demo_store)))"
    by (rule reachable_flow [OF reachable_initiate [OF start]])
  then have reached: "reachable demo_store_settled"
    unfolding created settled .
  have row: "payments demo_store_settled \<noteq> []" "p_id (hd (payments demo_store_settled)) = 1"
    "p_status (hd (payments demo_store_settled)) = COMPLETED"
    "p_amountSgd (hd (payments demo_store_settled)) = 1000"
    by (simp_all add: demo_store_settled_def flow_defs io_defs demo_defs Let_def)
  have mem: "hd (payments demo_store_settled) \<in> set (payments demo_store_settled)"
    using row(1) by simp
  from completed_amount_is_gross [OF reached mem row(3)] reached row mem demo_settled_rows(2,3,7,8,9)
  show ?thesis
    by (simp add: getExchangeRate_def mockRates_def)
qed

text \<open>
  The claim as written fails on the sample run: the payment is COMPLETED with 740 USD
  stored, while the product of amount and rates less the fees is 737.04 USD, which is
  2.96 USD away.
\<close>

theorem conservation_net_of_fees_counterexample:
  "map_option p_status (find (\<lambda>p. p_id p = 1) (payments demo_store_settled)) = Some COMPLETED
   \<and> map_option p_amountUsd (find (\<lambda>p. p_id p = 1) (payments demo_store_settled)) = Some (Some 740)
   \<and> p_amountSgd demo_payment * getExchangeRate ''SGD'' ''USDC'' * getExchangeRate ''USDC'' ''USD''
       - spec_stepFeesUsd 1 demo_store_settled = 18426 / 25
   \<and> \<bar>740 - (p_amountSgd demo_payment * getExchangeRate ''SGD'' ''USDC'' * getExchangeRate ''USDC'' ''USD''
               - spec_stepFeesUsd 1 demo_store_settled)\<bar> > 1"
  using demo_settled_rows(4,5,6)
  by (simp add: demo_payment_def getExchangeRate_def mockRates_def)

section \<open>Webhook deliveries\<close>

lemma signatureRejected_store: "snd (signatureRejected hmac secret req s) = s"
  by (simp add: signatureRejected_def resolve_def throw_def split: option.splits sum.splits)

lemma find_t_id_update_where [simp]:
  "(\<And>t. t_id (f t) = t_id t) \<Longrightarrow>
   find (\<lambda>t. t_id t = tid) (update_where (\<lambda>t. t_id t = tid) f ts)
     = map_option f (find (\<lambda>t. t_id t = tid) ts)"
  by (induction ts) (auto simp: update_where_def)

lemma find_w_id_update_where [simp]:
  "(\<And>w. w_id (f w) = w_id w) \<Longrightarrow>
   find (\<lambda>w. w_id w = wid) (update_where Q f ws)
     = map_option (\<lambda>w. if Q w then f w else w) (find (\<lambda>w. w_id w = wid) ws)"
  by (induction ws) (auto simp: update_where_def)

lemma find_self:
  "find Q xs = Some x \<Longrightarrow> \<exists>y. find (\<lambda>y. f y = f x) xs = Some y"
  by (induction xs) (auto split: if_splits)

lemma find_snoc:
  "find P (xs @ [x]) = (case find P xs of None \<Rightarrow> if P x then Some x else None | Some y \<Rightarrow> Some y)"
  by (induction xs) auto

lemmas hook_defs = webhooks_post_circle_def processWebhookEvent_def handlePaymentIntentSucceeded_def
  handlePaymentIntentFailed_def handleTransferCompleted_def handleTransferFailed_def
  handlePayoutCompleted_def handlePayoutFailed_def

lemma replay_store_unchanged:
  assumes "map_option w_processed (find (\<lambda>w. w_circleEventId w = wh_Id req) (webhookEvents s)) = Some True"
  shows "snd (webhooks_post_circle hmac secret req s) = s"
proof (cases "signatureRejected hmac secret req s")
  case (Pair result s1)
  with signatureRejected_store [of hmac secret req s] have "s1 = s" by simp
  with Pair assms show ?thesis
    by (cases result) (auto simp add: webhooks_post_circle_def io_defs)
qed

text \<open>
  Claim C4. The store holds a webhook event under the request's event id and it is
  marked processed. Then a delivery that passes the signature check is answered 200 with
  status \<open>already_processed\<close> and leaves the store exactly as it was: no payment, no
  transaction and no webhook event is changed. Whatever the secret and the signature,
  a delivery of such an event never changes the store.
\<close>

theorem webhook_replay_is_noop:
  assumes processed: "map_option w_processed (find (\<lambda>w. w_circleEventId w = wh_Id req) (webhookEvents s)) = Some True"
    and accepted: "fst (signatureRejected hmac secret req s) = Inr False"
  shows "webhooks_post_circle hmac secret req s = ((200, StatusReply ''already_processed''), s)
       \<and> snd (webhooks_post_circle hmac' secret' req s) = s"
proof -
  have sig: "signatureRejected hmac secret req s = (Inr False, s)"
    using accepted signatureRejected_store [of hmac secret req s] by (simp add: prod_eq_iff)
  have "webhooks_post_circle hmac secret req s = ((200, StatusReply ''already_processed''), s)"
    using sig processed by (auto simp add: webhooks_post_circle_def io_defs)
  with replay_store_unchanged [OF processed] show ?thesis by simp
qed

text \<open>
  The sample store after the first delivery of \<open>evt-1\<close>: the same delivery again, and a
  delivery of \<open>evt-1\<close> carrying another type, are answered \<open>already_processed\<close> and
  change nothing.
\<close>

theorem webhook_replay_is_noop_witness:
  "map_option w_processed
     (find (\<lambda>w. w_circleEventId w = ''evt-1'') (webhookEvents demo_hook_store_processed)) = Some True
   \<and> webhooks_post_circle demo_digest None
        (demo_hook_request None ''payout.completed'' ''evt-1'' ''payout-1700000002005'')
        demo_hook_store_processed
       = ((200, StatusReply ''already_processed''), demo_hook_store_processed)
   \<and> webhooks_post_circle demo_digest None
        (demo_hook_request None ''payout.failed'' ''evt-1'' ''payout-1700000002005'')
        demo_hook_store_processed
       = ((200, StatusReply ''already_processed''), demo_hook_store_processed)"
proof -
  let ?again = "demo_hook_request None ''payout.completed'' ''evt-1'' ''payout-1700000002005''"
  let ?other = "demo_hook_request None ''payout.failed'' ''evt-1'' ''payout-1700000002005''"
  have marked: "map_option w_processed
     (find (\<lambda>w. w_circleEventId w = ''evt-1'') (webhookEvents demo_hook_store_processed)) = Some True"
    by (simp add: demo_hook_store_processed_def hook_defs signatureRejected_def io_defs demo_defs Let_def)
  have id: "wh_Id ?again = ''evt-1''" "wh_Id ?other = ''evt-1''"
    by (simp_all add: demo_defs)
  have accepted: "fst (signatureRejected demo_digest None req demo_hook_store_processed) = Inr False" for req
    by (simp add: signatureRejected_def resolve_def)
  from webhook_replay_is_noop [of ?again demo_hook_store_processed demo_digest None demo_digest None]
       webhook_replay_is_noop [of ?other demo_hook_store_processed demo_digest None demo_digest None]
       marked accepted
  show ?thesis
    by (simp add: id)
qed

text \<open>
  Claim C8. A \<open>transfer.failed\<close> event passes the signature check and is not a replay
  of a processed event; the id in its data is the correlation id of a transaction, and
  \<open>tx\<close> is the one the store finds first; the payment that owns it exists. Then the
  answer is 200 with status \<open>processed\<close>, the transaction with the id of \<open>tx\<close> is
  FAILED afterwards, and the payments are changed only when the type of \<open>tx\<close> is
  PAYOUT: then the owning payment is FAILED; for any other type the payment table is
  exactly what it was.
\<close>

theorem transfer_failed_marks:
  assumes accepted: "fst (signatureRejected hmac secret req s) = Inr False"
    and unprocessed: "map_option w_processed (find (\<lambda>w. w_circleEventId w = wh_Id req) (webhookEvents s)) \<noteq> Some True"
    and type: "wh_Type req = ''transfer.failed''"
    and tx: "find (\<lambda>t. t_circleTransactionId t = Some (ed_id (wh_Data req))) (transactions s) = Some tx"
    and owner: "find (\<lambda>p. p_id p = t_paymentId tx) (payments s) = Some p"
  shows "fst (webhooks_post_circle hmac secret req s) = (200, StatusReply ''processed'')
       \<and> map_option t_status (find (\<lambda>t. t_id t = t_id tx)
            (transactions (snd (webhooks_post_circle hmac secret req s)))) = Some TX_FAILED
       \<and> (if t_type tx = PAYOUT
          then map_option p_status (find (\<lambda>p. p_id p = t_paymentId tx)
                 (payments (snd (webhooks_post_circle hmac secret req s)))) = Some FAILED
          else payments (snd (webhooks_post_circle hmac secret req s)) = payments s)"
proof -
  have sig: "signatureRejected hmac secret req s = (Inr False, s)"
    using accepted signatureRejected_store [of hmac secret req s] by (simp add: prod_eq_iff)
  obtain tx' where tx': "find (\<lambda>t. t_id t = t_id tx) (transactions s) = Some tx'"
    using find_self [OF tx, of t_id] by blast
  show ?thesis
  proof (cases "find (\<lambda>w. w_circleEventId w = wh_Id req) (webhookEvents s)")
    case None
    then show ?thesis using sig type tx tx' owner
      by (simp add: hook_defs io_defs Let_def find_snoc split: option.splits)
  next
    case (Some ev)
    with unprocessed have "\<not> w_processed ev" by simp
    obtain ev' where ev': "find (\<lambda>w. w_id w = w_id ev) (webhookEvents s) = Some ev'"
      using find_self [OF Some, of w_id] by blast
    show ?thesis using sig type tx tx' owner Some \<open>\<not> w_processed ev\<close> ev'
      by (simp add: hook_defs io_defs Let_def)
  qed
qed


text \<open>
  The sample store, payment 1 in progress: a failed payout fails the payment, a failed
  exchange leaves the payments alone.
\<close>

theorem transfer_failed_marks_witness:
  "find (\<lambda>t. t_circleTransactionId t = Some ''payout-1700000002005'') (transactions demo_hook_store)
     = Some demo_payout_tx
   \<and> fst (webhooks_post_circle demo_digest None
            (demo_hook_request None ''transfer.failed'' ''evt-1'' ''payout-1700000002005'')
            demo_hook_store) = (200, StatusReply ''processed'')
   \<and> map_option t_status (find (\<lambda>t. t_id t = 5)
        (transactions (snd (webhooks_post_circle demo_digest None
            (demo_hook_request None ''transfer.failed'' ''evt-1'' ''payout-1700000002005'')
            demo_hook_store)))) = Some TX_FAILED
   \<and> map_option p_status (find (\<lambda>p. p_id p = 1)
        (payments (snd (webhooks_post_circle demo_digest None
            (demo_hook_request None ''transfer.failed'' ''evt-1'' ''payout-1700000002005'')
            demo_hook_store)))) = Some FAILED
   \<and> find (\<lambda>t. t_circleTransactionId t = Some ''exchange-sgd-usdc-1700000002005'')
        (transactions demo_hook_store) = Some demo_exchange_tx
   \<and> map_option t_status (find (\<lambda>t. t_id t = 3)
        (transactions (snd (webhooks_post_circle demo_digest None
            (demo_hook_request None ''transfer.failed'' ''evt-2'' ''exchange-sgd-usdc-1700000002005'')
            demo_hook_store)))) = Some TX_FAILED
   \<and> payments (snd (webhooks_post_circle demo_digest None
            (demo_hook_request None ''transfer.failed'' ''evt-2'' ''exchange-sgd-usdc-1700000002005'')
            demo_hook_store)) = payments demo_hook_store"
proof -
  let ?payout = "demo_hook_request None ''transfer.failed'' ''evt-1'' ''payout-1700000002005''"
  let ?exchange = "demo_hook_request None ''transfer.failed'' ''evt-2'' ''exchange-sgd-usdc-1700000002005''"
  have accepted: "fst (signatureRejected demo_digest None req demo_hook_store) = Inr False" for req
    by (simp add: signatureRejected_def resolve_def)
  have unprocessed:
    "map_option w_processed (find (\<lambda>w. w_circleEventId w = wh_Id req) (webhookEvents demo_hook_store))
       \<noteq> Some True" for req
    by (simp add: demo_defs)
  have type: "wh_Type ?payout = ''transfer.failed''" "wh_Type ?exchange = ''transfer.failed''"
    by (simp_all add: demo_defs)
  have payout: "find (\<lambda>t. t_circleTransactionId t = Some (ed_id (wh_Data ?payout)))
                  (transactions demo_hook_store) = Some demo_payout_tx"
    by (simp add: demo_defs)
  have exchange: "find (\<lambda>t. t_circleTransactionId t = Some (ed_id (wh_Data ?exchange)))
                  (transactions demo_hook_store) = Some demo_exchange_tx"
    by (simp add: demo_defs)
  have owner: "find (\<lambda>p. p_id p = t_paymentId demo_payout_tx) (payments demo_hook_store)
                 = Some demo_hook_payment"
      "find (\<lambda>p. p_id p = t_paymentId demo_exchange_tx) (payments demo_hook_store)
                 = Some demo_hook_payment"
    by (simp_all add: demo_defs)
  have ids: "t_id demo_payout_tx = 5" "t_id demo_exchange_tx = 3" "t_paymentId demo_payout_tx = 1"
    "t_type demo_payout_tx = PAYOUT" "t_type demo_exchange_tx \<noteq> PAYOUT"
    by (simp_all add: demo_defs)
  have data: "ed_id (wh_Data ?payout) = ''payout-1700000002005''"
    "ed_id (wh_Data ?exchange) = ''exchange-sgd-usdc-1700000002005''"
    by (simp_all add: demo_defs)
  from transfer_failed_marks [OF accepted unprocessed type(1) payout owner(1)]
       transfer_failed_marks [OF accepted unprocessed type(2) exchange owner(2)]
       payout exchange
  show ?thesis
    by (simp add: ids data)
qed

text \<open>
  Claim C10. A \<open>payout.completed\<close> event passes the signature check and is not a
  replay of a processed event; the id in its data is the correlation id of a
  transaction, \<open>tx\<close> the one the store finds first, and the payment that owns it
  exists, in whatever status. Then the answer is 200 with status \<open>processed\<close>, the
  transaction with the id of \<open>tx\<close> is CONFIRMED, and the owning payment is COMPLETED
  with the current time as its actual settlement time. Nothing is assumed about the
  payment's status before: a payment already FAILED or COMPLETED is treated alike.
\<close>

theorem payout_completed_overrides_status:
  assumes accepted: "fst (signatureRejected hmac secret req s) = Inr False"
    and unprocessed: "map_option w_processed (find (\<lambda>w. w_circleEventId w = wh_Id req) (webhookEvents s)) \<noteq> Some True"
    and type: "wh_Type req = ''payout.completed''"
    and tx: "find (\<lambda>t. t_circleTransactionId t = Some (ed_id (wh_Data req))) (transactions s) = Some tx"
    and owner: "find (\<lambda>p. p_id p = t_paymentId tx) (payments s) = Some p"
  shows "fst (webhooks_post_circle hmac secret req s) = (200, StatusReply ''processed'')
       \<and> map_option t_status (find (\<lambda>t. t_id t = t_id tx)
            (transactions (snd (webhooks_post_circle hmac secret req s)))) = Some TX_CONFIRMED
       \<and> map_option p_status (find (\<lambda>p. p_id p = t_paymentId tx)
            (payments (snd (webhooks_post_circle hmac secret req s)))) = Some COMPLETED
       \<and> map_option p_actualSettlementTime (find (\<lambda>p. p_id p = t_paymentId tx)
            (payments (snd (webhooks_post_circle hmac secret req s)))) = Some (Some (clock s))"
proof -
  have sig: "signatureRejected hmac secret req s = (Inr False, s)"
    using accepted signatureRejected_store [of hmac secret req s] by (simp add: prod_eq_iff)
  obtain tx' where tx': "find (\<lambda>t. t_id t = t_id tx) (transactions s) = Some tx'"
    using find_self [OF tx, of t_id] by blast
  show ?thesis
  proof (cases "find (\<lambda>w. w_circleEventId w = wh_Id req) (webhookEvents s)")
    case None
    then show ?thesis using sig type tx tx' owner
      by (simp add: hook_defs io_defs Let_def find_snoc split: option.splits)
  next
    case (Some ev)
    with unprocessed have "\<not> w_processed ev" by simp
    obtain ev' where ev': "find (\<lambda>w. w_id w = w_id ev) (webhookEvents s) = Some ev'"
      using find_self [OF Some, of w_id] by blast
    show ?thesis using sig type tx tx' owner Some \<open>\<not> w_processed ev\<close> ev'
      by (simp add: hook_defs io_defs Let_def)
  qed
qed

text \<open>
  The sample store with payment 1 FAILED and settled at an earlier time: the event turns
  it to COMPLETED and replaces the settlement time by the time of the delivery.
\<close>

theorem payout_completed_overrides_status_witness:
  "map_option p_status (find (\<lambda>p. p_id p = 1) (payments demo_hook_store_failed)) = Some FAILED
   \<and> map_option p_actualSettlementTime (find (\<lambda>p. p_id p = 1) (payments demo_hook_store_failed))
       = Some (Some 1700000002005)
   \<and> fst (webhooks_post_circle demo_digest None
            (demo_hook_request None ''payout.completed'' ''evt-1'' ''payout-1700000002005'')
            demo_hook_store_failed) = (200, StatusReply ''processed'')
   \<and> map_option t_status (find (\<lambda>t. t_id t = 5) (transactions demo_hook_store_processed))
       = Some TX_CONFIRMED
   \<and> map_option p_status (find (\<lambda>p. p_id p = 1) (payments demo_hook_store_processed))
       = Some COMPLETED
   \<and> map_option p_actualSettlementTime (find (\<lambda>p. p_id p = 1) (payments demo_hook_store_processed))
       = Some (Some 1700000009000)"
proof -
  let ?req = "demo_hook_request None ''payout.completed'' ''evt-1'' ''payout-1700000002005''"
  have accepted: "fst (signatureRejected demo_digest None ?req demo_hook_store_failed) = Inr False"
    by (simp add: signatureRejected_def resolve_def)
  have unprocessed:
    "map_option w_processed
       (find (\<lambda>w. w_circleEventId w = wh_Id ?req) (webhookEvents demo_hook_store_failed)) \<noteq> Some True"
    by (simp add: demo_defs)
  have type: "wh_Type ?req = ''payout.completed''"
    by (simp add: demo_defs)
  have payout: "find (\<lambda>t. t_circleTransactionId t = Some (ed_id (wh_Data ?req)))
                  (transactions demo_hook_store_failed) = Some demo_payout_tx"
    by (simp add: demo_defs)
  have owner: "find (\<lambda>p. p_id p = t_paymentId demo_payout_tx) (payments demo_hook_store_failed)
                 = Some (demo_hook_payment\<lparr>p_status := FAILED\<rparr>)"
    by (simp add: demo_defs)
  have before: "map_option p_status (find (\<lambda>p. p_id p = 1) (payments demo_hook_store_failed)) = Some FAILED"
    "map_option p_actualSettlementTime (find (\<lambda>p. p_id p = 1) (payments demo_hook_store_failed))
       = Some (Some 1700000002005)"
    by (simp_all add: demo_defs)
  have ids: "t_id demo_payout_tx = 5" "t_paymentId demo_payout_tx = 1"
    "clock demo_hook_store_failed = 1700000009000"
    by (simp_all add: demo_defs)
  from payout_completed_overrides_status [OF accepted unprocessed type payout owner] before
  show ?thesis
    by (simp add: ids demo_hook_store_processed_def)
qed

text \<open>
  Claim C6, the signature check. With a secret configured, a signature that decodes to
  as many bytes as the digest but to other bytes is answered 401, and nothing is stored.
  A signature that decodes to another number of bytes makes \<open>timingSafeEqual\<close> throw,
  and so does a missing header in \<open>Buffer.from\<close>: the handler's \<open>catch\<close> answers 500
  (nothing is stored either). With no secret, or an empty one, the check is skipped.
\<close>

lemma signature_mismatch_401:
  assumes "secret \<noteq> []" and "header_signature req = Some sig"
    and "length (bufferFromHex sig) = length (bufferFromHex (hmac secret (wh_payload req)))"
    and "bufferFromHex sig \<noteq> bufferFromHex (hmac secret (wh_payload req))"
  shows "webhooks_post_circle hmac (Some secret) req s = ((401, ErrorReply ''Invalid signature''), s)"
  using assms
  by (simp add: webhooks_post_circle_def signatureRejected_def verifyWebhookSignature_def
        timingSafeEqual_def io_defs)

lemma signature_wrong_length_500:
  assumes "secret \<noteq> []" and "header_signature req = Some sig"
    and "length (bufferFromHex sig) \<noteq> length (bufferFromHex (hmac secret (wh_payload req)))"
  shows "webhooks_post_circle hmac (Some secret) req s = ((500, ErrorReply ''Webhook processing failed''), s)"
  using assms
  by (simp add: webhooks_post_circle_def signatureRejected_def verifyWebhookSignature_def
        timingSafeEqual_def io_defs)

lemma signature_missing_500:
  assumes "secret \<noteq> []" and "header_signature req = None"
  shows "webhooks_post_circle hmac (Some secret) req s = ((500, ErrorReply ''Webhook processing failed''), s)"
  using assms
  by (simp add: webhooks_post_circle_def signatureRejected_def verifyWebhookSignature_def
        timingSafeEqual_def io_defs)

lemma no_secret_skips_check:
  assumes "secret = None \<or> secret = Some []"
  shows "signatureRejected hmac secret req s = (Inr False, s)"
  using assms by (auto simp add: signatureRejected_def resolve_def)

text \<open>
  Characters after the digest's 64 hexadecimal digits are dropped by the decoding, so a
  header that is the digest followed by \<open>zz\<close> passes the check.
\<close>

lemma signature_trailing_characters_accepted:
  "signatureRejected demo_digest (Some ''whsec_test'')
     (demo_hook_request (Some (demo_digest ''whsec_test'' ''{Type,Id,Data}'' @ ''zz''))
        eventType eventId dataId) s = (Inr False, s)"
proof -
  have "bufferFromHex (demo_digest k m @ ''zz'') = bufferFromHex (demo_digest k m)" for k m
    by (simp add: demo_digest_def hexValue_def eval_nat_numeral)
  then show ?thesis
    by (simp add: signatureRejected_def verifyWebhookSignature_def timingSafeEqual_def
          demo_hook_request_def resolve_def)
qed

text \<open>
  Claim C6 on the sample store, with a secret configured: the signature \<open>00\<close>, one
  byte where the digest has 32, and a request without the header are both answered 500,
  not 401; the store is unchanged.
\<close>

theorem webhook_short_signature_is_500:
  "length (bufferFromHex ''00'') = 1
   \<and> length (bufferFromHex (demo_digest ''whsec_test'' ''{Type,Id,Data}'')) = 32
   \<and> webhooks_post_circle demo_digest (Some ''whsec_test'')
        (demo_hook_request (Some ''00'') ''payout.completed'' ''evt-1'' ''payout-1700000002005'')
        demo_hook_store
       = ((500, ErrorReply ''Webhook processing failed''), demo_hook_store)
   \<and> webhooks_post_circle demo_digest (Some ''whsec_test'')
        (demo_hook_request None ''payout.completed'' ''evt-1'' ''payout-1700000002005'')
        demo_hook_store
       = ((500, ErrorReply ''Webhook processing failed''), demo_hook_store)"
proof -
  let ?short = "demo_hook_request (Some ''00'') ''payout.completed'' ''evt-1'' ''payout-1700000002005''"
  let ?none = "demo_hook_request None ''payout.completed'' ''evt-1'' ''payout-1700000002005''"
  have one: "length (bufferFromHex ''00'') = 1"
    by (simp add: hexValue_def eval_nat_numeral)
  have digest: "length (bufferFromHex (demo_digest k m)) = 32" for k m
    by (simp add: demo_digest_def hexValue_def eval_nat_numeral)
  have secret: "''whsec_test'' \<noteq> []"
    by simp
  have header: "header_signature ?short = Some ''00''" "header_signature ?none = None"
    "wh_payload ?short = ''{Type,Id,Data}''"
    by (simp_all add: demo_hook_request_def)
  have short: "webhooks_post_circle demo_digest (Some ''whsec_test'') ?short demo_hook_store
       = ((500, ErrorReply ''Webhook processing failed''), demo_hook_store)"
    by (rule signature_wrong_length_500 [OF secret header(1)])
       (simp add: one digest del: bufferFromHex.simps)
  have none: "webhooks_post_circle demo_digest (Some ''whsec_test'') ?none demo_hook_store
       = ((500, ErrorReply ''Webhook processing failed''), demo_hook_store)"
    by (rule signature_missing_500 [OF secret header(2)])
  from one digest [of "''whsec_test''" "''{Type,Id,Data}''"] short none show ?thesis
    by simp
qed

end
